theory Spec2Isabelle
  imports Complex_Main
begin

section \<open>JavaScript values used by the charger client\<close>

text \<open>
  The client (\<^verbatim>\<open>src/index.js\<close>, classes \<^verbatim>\<open>CommandUtil\<close> and
  \<^verbatim>\<open>ChargerController\<close>) works on hex-encoded ASCII strings and on JavaScript
  numbers. A JavaScript string is modelled as a \<open>string\<close>: one \<open>char\<close> per code unit
  (code units below 256 only, which covers every character the protocol uses).

  A JavaScript number is a double. Two views are used: \<open>js_integer\<close> for the numbers
  that are integral by construction (results of \<^verbatim>\<open>parseInt\<close>, \<^verbatim>\<open>Math.trunc\<close>, sums of
  those) and \<open>js_double\<close> for arbitrary ones (a caller's argument, a quotient by 10, where
  \<open>Finite q\<close> stands for the double nearest to \<open>q\<close>). Both carry \<^verbatim>\<open>NaN\<close> and the two
  infinities. Negative zero is identified with zero: the code never divides by a number
  and never tells the two apart.
\<close>

datatype 'a js_number = NaN | PosInfinity | NegInfinity | Finite 'a

type_synonym js_integer = "int js_number"
type_synonym js_double = "rat js_number"

subsection \<open>String.prototype helpers\<close>

text \<open>
  \<^verbatim>\<open>s.substring(start, end)\<close>: both indices are clamped to \<open>[0, length]\<close> and swapped
  when \<open>start > end\<close>; it never fails.
\<close>

definition substring :: "string \<Rightarrow> int \<Rightarrow> int \<Rightarrow> string" where
  "substring s start end =
     (let len = int (length s);
          finalStart = min (max start 0) len;
          finalEnd = min (max end 0) len;
          from = min finalStart finalEnd;
          to = max finalStart finalEnd
      in take (nat (to - from)) (drop (nat from) s))"

text \<open>\<^verbatim>\<open>s.substring(start)\<close>: the end defaults to the length.\<close>

definition substringFrom :: "string \<Rightarrow> int \<Rightarrow> string" where
  "substringFrom s start = substring s start (int (length s))"

definition startsWith :: "string \<Rightarrow> string \<Rightarrow> bool" where
  "startsWith s p = (take (length p) s = p)"

text \<open>\<^verbatim>\<open>s.padStart(n, '0')\<close> with a one-character filler.\<close>

definition padStart :: "nat \<Rightarrow> char \<Rightarrow> string \<Rightarrow> string" where
  "padStart n c s = replicate (n - length s) c @ s"

text \<open>\<^verbatim>\<open>s.replaceAll(' ', '')\<close>.\<close>

definition removeSpaces :: "string \<Rightarrow> string" where
  "removeSpaces s = filter (\<lambda>c. c \<noteq> CHR '' '') s"

subsection \<open>parseInt\<close>

text \<open>
  White space that \<^verbatim>\<open>parseInt\<close> skips: TAB, LF, VT, FF, CR, SP and NBSP (the code units
  below 256 of ECMAScript's WhiteSpace and LineTerminator).
\<close>

definition isWhiteSpace :: "char \<Rightarrow> bool" where
  "isWhiteSpace c = (let n = (of_char c :: nat) in (9 \<le> n \<and> n \<le> 13) \<or> n = 32 \<or> n = 160)"

text \<open>The value of a digit in radix up to 36; 36 for a character that is no digit.\<close>

definition digitValue :: "char \<Rightarrow> nat" where
  "digitValue c =
     (let n = (of_char c :: nat) in
      if 48 \<le> n \<and> n \<le> 57 then n - 48
      else if 97 \<le> n \<and> n \<le> 122 then n - 87
      else if 65 \<le> n \<and> n \<le> 90 then n - 55
      else 36)"

definition isRadixDigit :: "nat \<Rightarrow> char \<Rightarrow> bool" where
  "isRadixDigit R c = (digitValue c < R)"

definition digitsValue :: "nat \<Rightarrow> string \<Rightarrow> int" where
  "digitsValue R Z = foldl (\<lambda>acc c. acc * int R + int (digitValue c)) 0 Z"

text \<open>The number of bits of a positive integer.\<close>

function bitLength :: "int \<Rightarrow> nat" where
  "bitLength n = (if n \<le> 0 then 0 else Suc (bitLength (n div 2)))"
  by pat_completeness auto
termination
  by (relation "measure nat") auto

declare bitLength.simps [simp del]

text \<open>
  The double that an integer becomes: itself up to \<open>2^53\<close>, beyond that the nearest
  number with a 53-bit significand (ties to even), and an infinity from \<open>2^1024\<close> on
  (more than 1024 bits).
\<close>

definition toDouble :: "int \<Rightarrow> js_integer" where
  "toDouble i =
     (let a = \<bar>i\<bar> in
      if a < 2 ^ 53 then Finite i
      else
        let e = bitLength a - 53;
            q = a div 2 ^ e;
            r = a mod 2 ^ e;
            h = 2 ^ (e - 1);
            q' = (if h < r \<or> (r = h \<and> odd q) then q + 1 else q);
            v = q' * 2 ^ e
        in if 1024 < bitLength v then (if i < 0 then NegInfinity else PosInfinity)
           else Finite (if i < 0 then - v else v))"

text \<open>
  \<^verbatim>\<open>parseInt(s, R)\<close> after ECMAScript: skip white space, read a sign, for radix 16 (or 0)
  skip a \<^verbatim>\<open>0x\<close> prefix, read the longest run of radix-\<open>R\<close> digits; no digit gives
  \<^verbatim>\<open>NaN\<close>, what follows the digits is ignored.
\<close>

definition parseInt :: "string \<Rightarrow> nat \<Rightarrow> js_integer" where
  "parseInt inputString radix =
     (let S = dropWhile isWhiteSpace inputString;
          negative = (S \<noteq> [] \<and> hd S = CHR ''-'');
          S1 = (if S \<noteq> [] \<and> (hd S = CHR ''+'' \<or> hd S = CHR ''-'') then tl S else S);
          stripPrefix = (radix = 0 \<or> radix = 16);
          R0 = (if radix = 0 then 10 else radix);
          hasPrefix = (stripPrefix \<and> (take 2 S1 = ''0x'' \<or> take 2 S1 = ''0X''));
          S2 = (if hasPrefix then drop 2 S1 else S1);
          R = (if hasPrefix then 16 else R0);
          Z = takeWhile (isRadixDigit R) S2
      in if radix \<noteq> 0 \<and> (radix < 2 \<or> 36 < radix) then NaN
         else if Z = [] then NaN
         else toDouble (if negative then - digitsValue R Z else digitsValue R Z))"

subsection \<open>Number.prototype.toString and arithmetic\<close>

definition digitChar :: "nat \<Rightarrow> char" where
  "digitChar d = ''0123456789abcdefghijklmnopqrstuvwxyz'' ! d"

text \<open>The digits of a non-negative integer in radix \<open>R\<close>.\<close>

function digitsOf :: "nat \<Rightarrow> int \<Rightarrow> string" where
  "digitsOf R n =
     (if R < 2 \<or> n < int R then [digitChar (nat n)]
      else digitsOf R (n div int R) @ [digitChar (nat (n mod int R))])"
  by pat_completeness auto
termination
proof (relation "measure (\<lambda>(R, n). nat n)")
  fix R :: nat and n :: int
  assume "\<not> (R < 2 \<or> n < int R)"
  then have "0 < n" "1 < int R" by simp_all
  then have "n div int R < n" by (rule int_div_less_self)
  with \<open>0 < n\<close> show "((R, n div int R), (R, n)) \<in> measure (\<lambda>(R, n). nat n)" by simp
qed simp

declare digitsOf.simps [simp del]

text \<open>
  \<^verbatim>\<open>x.toString(R)\<close> for an integral number. For radix 10 the plain digit notation below
  is what JavaScript prints while \<open>\<bar>x\<bar> < 10^21\<close>; the code calls it on values read from
  at most four hex digits and on small counters.
\<close>

definition numberToString :: "nat \<Rightarrow> js_integer \<Rightarrow> string" where
  "numberToString R x =
     (case x of
        NaN \<Rightarrow> ''NaN''
      | PosInfinity \<Rightarrow> ''Infinity''
      | NegInfinity \<Rightarrow> ''-Infinity''
      | Finite i \<Rightarrow> (if i < 0 then CHR ''-'' # digitsOf R (- i) else digitsOf R i))"

text \<open>\<^verbatim>\<open>x + y\<close> on integral numbers: the exact sum, rounded to a double.\<close>

definition js_add :: "js_integer \<Rightarrow> js_integer \<Rightarrow> js_integer" where
  "js_add x y =
     (case (x, y) of
        (Finite a, Finite b) \<Rightarrow> toDouble (a + b)
      | (NaN, _) \<Rightarrow> NaN
      | (_, NaN) \<Rightarrow> NaN
      | (PosInfinity, NegInfinity) \<Rightarrow> NaN
      | (NegInfinity, PosInfinity) \<Rightarrow> NaN
      | (PosInfinity, _) \<Rightarrow> PosInfinity
      | (_, PosInfinity) \<Rightarrow> PosInfinity
      | (NegInfinity, _) \<Rightarrow> NegInfinity
      | (_, NegInfinity) \<Rightarrow> NegInfinity)"

text \<open>
  \<^verbatim>\<open>x % m\<close> for a positive integer \<open>m\<close>: the remainder takes the sign of the dividend;
  \<^verbatim>\<open>NaN\<close> and the infinities give \<^verbatim>\<open>NaN\<close>.
\<close>

definition js_rem :: "js_integer \<Rightarrow> int \<Rightarrow> js_integer" where
  "js_rem x m =
     (case x of
        Finite a \<Rightarrow> Finite (if a < 0 then - ((- a) mod m) else a mod m)
      | _ \<Rightarrow> NaN)"

section \<open>CommandUtil: the frame codec\<close>

definition FRAME_HEADER :: string where
  "FRAME_HEADER = ''55aa''"

definition MESSAGE_ID :: string where
  "MESSAGE_ID = ''0001''"

text \<open>
  \<^verbatim>\<open>checksum(input)\<close>: \<^verbatim>\<open>'00'\<close> for an empty input or an odd number of characters
  (spaces removed); otherwise the sum of \<^verbatim>\<open>parseInt(pair, 16)\<close> over the character pairs,
  \<^verbatim>\<open>% 0x100\<close>, printed in hex and padded to two characters.
\<close>

fun checksumLoop :: "string \<Rightarrow> js_integer \<Rightarrow> js_integer" where
  "checksumLoop (a # b # rest) chk = checksumLoop rest (js_add chk (parseInt [a, b] 16))"
| "checksumLoop [a] chk = js_add chk (parseInt [a] 16)"
| "checksumLoop [] chk = chk"

definition checksum :: "string \<Rightarrow> string" where
  "checksum input0 =
     (if input0 = [] then ''00''
      else
        let input = removeSpaces input0 in
        if length input mod 2 \<noteq> 0 then ''00''
        else padStart 2 (CHR ''0'') (numberToString 16 (js_rem (checksumLoop input (Finite 0)) 256)))"

definition testChecksum :: "string \<Rightarrow> bool" where
  "testChecksum input =
     (let chk1 = substringFrom input (int (length input) - 2);
          chk2 = checksum (substring input 0 (int (length input) - 2))
      in chk2 = chk1)"

text \<open>
  \<^verbatim>\<open>compileMessage(command)\<close>, with its local variables \<^verbatim>\<open>password\<close>, \<^verbatim>\<open>encodedPwd\<close>,
  \<^verbatim>\<open>lengthHex\<close> and \<^verbatim>\<open>full\<close> as definitions of their own. The stored password is a string
  or unset: \<open>None\<close> is \<^verbatim>\<open>undefined\<close>/\<^verbatim>\<open>null\<close> (the constructor stores whatever it was
  given). \<^verbatim>\<open>this.password || '123456'\<close> takes the default for the falsy values, which are
  the unset password and the empty string.
\<close>

definition passwordOrDefault :: "string option \<Rightarrow> string" where
  "passwordOrDefault pw = (case pw of None \<Rightarrow> ''123456'' | Some p \<Rightarrow> (if p = [] then ''123456'' else p))"

definition encodedPwd :: "string option \<Rightarrow> string" where
  "encodedPwd pw = padStart 8 (CHR ''0'') (numberToString 16 (parseInt (passwordOrDefault pw) 10))"

definition lengthHex :: "string option \<Rightarrow> string \<Rightarrow> string" where
  "lengthHex pw command =
     padStart 2 (CHR ''0'')
       (numberToString 16
          (Finite (int ((length FRAME_HEADER + length MESSAGE_ID + length (encodedPwd pw)
                          + length command) div 2 + 2))))"

definition compileFull :: "string option \<Rightarrow> string \<Rightarrow> string" where
  "compileFull pw command = FRAME_HEADER @ MESSAGE_ID @ lengthHex pw command @ encodedPwd pw @ command"

definition compileMessage :: "string option \<Rightarrow> string \<Rightarrow> string" where
  "compileMessage pw command = compileFull pw command @ checksum (compileFull pw command)"

record ParsedMessage =
  raw :: string
  command :: string
  data :: string

text \<open>\<^verbatim>\<open>parseResult(input)\<close>: \<open>None\<close> is the bare \<^verbatim>\<open>return\<close> (\<^verbatim>\<open>undefined\<close>).\<close>

definition parseResult :: "string \<Rightarrow> ParsedMessage option" where
  "parseResult input =
     (if input = [] then None
      else if length input < 13 then None
      else if \<not> startsWith input FRAME_HEADER then None
      else if \<not> testChecksum input then None
      else Some \<lparr> raw = input, command = substring input 10 12, data = substringFrom input 12 \<rparr>)"

definition decodeBoolean :: "string \<Rightarrow> bool" where
  "decodeBoolean input = (substring input 0 2 = ''01'')"

section \<open>ChargerController\<close>

subsection \<open>Number helpers of the decoders\<close>

text \<open>\<^verbatim>\<open>x !== 0\<close>, \<^verbatim>\<open>x === 1\<close> (\<^verbatim>\<open>NaN\<close> is unequal to every number), \<^verbatim>\<open>x || 0\<close>,
  \<^verbatim>\<open>x / 10\<close> and \<^verbatim>\<open>x - 100\<close>.\<close>

definition notZero :: "js_integer \<Rightarrow> bool" where
  "notZero x = (x \<noteq> Finite 0)"

definition isOne :: "js_integer \<Rightarrow> bool" where
  "isOne x = (x = Finite 1)"


definition div10 :: "js_integer \<Rightarrow> js_double" where
  "div10 x =
     (case x of
        NaN \<Rightarrow> NaN
      | PosInfinity \<Rightarrow> PosInfinity
      | NegInfinity \<Rightarrow> NegInfinity
      | Finite i \<Rightarrow> Finite (of_int i / 10))"

definition minus100 :: "js_integer \<Rightarrow> js_integer" where
  "minus100 x = js_add x (Finite (- 100))"

text \<open>\<^verbatim>\<open>Math.trunc(x)\<close> and \<^verbatim>\<open>Math.min(x, y)\<close> (\<^verbatim>\<open>NaN\<close> if either is).\<close>

definition Math_trunc :: "js_double \<Rightarrow> js_integer" where
  "Math_trunc x =
     (case x of
        NaN \<Rightarrow> NaN
      | PosInfinity \<Rightarrow> PosInfinity
      | NegInfinity \<Rightarrow> NegInfinity
      | Finite q \<Rightarrow> Finite (if q < 0 then - \<lfloor>- q\<rfloor> else \<lfloor>q\<rfloor>))"

definition Math_min :: "js_integer \<Rightarrow> js_integer \<Rightarrow> js_integer" where
  "Math_min x y =
     (case (x, y) of
        (NaN, _) \<Rightarrow> NaN
      | (_, NaN) \<Rightarrow> NaN
      | (NegInfinity, _) \<Rightarrow> NegInfinity
      | (_, NegInfinity) \<Rightarrow> NegInfinity
      | (PosInfinity, _) \<Rightarrow> y
      | (_, PosInfinity) \<Rightarrow> x
      | (Finite a, Finite b) \<Rightarrow> Finite (min a b))"

subsection \<open>Commands and state\<close>

definition Command_PasswordChange :: string where
  "Command_PasswordChange = ''02''"

definition Command_SetMaxCurrent :: string where
  "Command_SetMaxCurrent = ''6d''"

definition Command_GetFaultStatus :: string where
  "Command_GetFaultStatus = ''6e''"

definition Command_GetRealTimeData :: string where
  "Command_GetRealTimeData = ''70''"


definition ChargerMode_OnePhase :: js_integer where
  "ChargerMode_OnePhase = Finite 0"

definition ChargerMode_ThreePhase :: js_integer where
  "ChargerMode_ThreePhase = Finite 1"

definition ChargerState_Unplugged :: js_integer where
  "ChargerState_Unplugged = Finite 1"

definition ChargerState_Standby :: js_integer where
  "ChargerState_Standby = Finite 2"

record ChargeFaultStatus =
  overVoltage :: bool
  underVoltage :: bool
  overload :: bool
  highTemperature :: bool
  groundDetection :: bool
  leakage :: bool
  cpSignalAbnormal :: bool
  emergencyStopButton :: bool
  ccSignalAbnormal :: bool
  dlbWiring :: bool
  dlbOffline :: bool
  motorLock :: bool
  sticking :: "bool option"
  contactor :: "bool option"

text \<open>A field that the decoder may leave out is an \<open>option\<close>; the field \<^verbatim>\<open>power\<close> is
  named \<open>powerNow\<close> here.\<close>

record ChargerRealTimeData =
  electricCurrent :: "js_integer option"
  voltage :: "js_integer option"
  electricCurrentA :: "js_integer option"
  electricCurrentB :: "js_integer option"
  electricCurrentC :: "js_integer option"
  voltageA :: "js_integer option"
  voltageB :: "js_integer option"
  voltageC :: "js_integer option"
  powerNow :: js_double
  totalPower :: js_double
  temperature :: js_integer
  state :: js_integer
  timedChargeEnabled :: bool
  startChargeTime :: string
  endChargeTime :: string
  maxCurrent :: "js_integer option"
  maxPower :: "js_integer option"
  isReservation :: "bool option"
  isMaximum :: "bool option"
  isExtremeMode :: "bool option"

record ChargerModel =
  mode :: js_integer
  version :: string
  firmwareVersion :: string
  hardwareVersion :: string


datatype event =
    Ev_password string
  | Ev_fault_status ChargeFaultStatus
  | Ev_realtime_data ChargerRealTimeData

datatype js_error = ResultTimedOut | SendFailed string | BindFailed string | TypeError

text \<open>
  The controller's private fields that the functions below read or write, and the events
  it has emitted, oldest first. Of \<^verbatim>\<open>#socket\<close> and \<^verbatim>\<open>#connectingSocket\<close> the state keeps
  whether they are set.
\<close>

record Controller =
  util_password :: "string option"
  resultTimeout :: int
  socket :: bool
  isConnected :: bool
  connectingSocket :: bool
  model :: "ChargerModel option"
  lastFaultStatus :: "ChargeFaultStatus option"
  lastData :: "ChargerRealTimeData option"
  emitted :: "event list"

text \<open>
  Every \<^verbatim>\<open>send...\<close> function awaits \<^verbatim>\<open>sendCommand(command, true)\<close> and then works on the
  message it resolved with. Below, the command string is a definition of its own
  (\<open>..._command\<close>), and the rest of the function takes the resolved message as an
  argument; when \<^verbatim>\<open>sendCommand\<close> rejects, the rest does not run.
\<close>

subsection \<open>sendSetPassword\<close>

definition sendSetPassword_command :: "string \<Rightarrow> string" where
  "sendSetPassword_command password =
     Command_PasswordChange @ padStart 8 (CHR ''0'') (numberToString 16 (parseInt password 10))"

definition sendSetPassword :: "Controller \<Rightarrow> string \<Rightarrow> ParsedMessage \<Rightarrow> Controller \<times> bool" where
  "sendSetPassword ctl password result =
     (ctl \<lparr> util_password := Some password, emitted := emitted ctl @ [Ev_password password] \<rparr>,
      decodeBoolean (data result))"

subsection \<open>sendSetMaxCurrent\<close>

definition sendSetMaxCurrent_command :: "js_double \<Rightarrow> string" where
  "sendSetMaxCurrent_command maxCurrentArg =
     Command_SetMaxCurrent
       @ padStart 4 (CHR ''0'') (numberToString 16 (Math_min (Math_trunc maxCurrentArg) (Finite 255)))"

definition sendSetMaxCurrent :: "ParsedMessage \<Rightarrow> bool" where
  "sendSetMaxCurrent result = decodeBoolean (data result)"

subsection \<open>sendGetFaultStatus\<close>

definition faultFlag :: "string \<Rightarrow> int \<Rightarrow> bool" where
  "faultFlag result i = notZero (parseInt (substring result i (i + 2)) 16)"

definition sendGetFaultStatus :: "Controller \<Rightarrow> ParsedMessage \<Rightarrow> Controller \<times> ChargeFaultStatus" where
  "sendGetFaultStatus ctl msg =
     (let result = data msg;
          isV108 = (26 \<le> length result);
          status = \<lparr> overVoltage = faultFlag result 0,
                     underVoltage = faultFlag result 2,
                     overload = faultFlag result 4,
                     highTemperature = faultFlag result 6,
                     groundDetection = faultFlag result 8,
                     leakage = faultFlag result 10,
                     cpSignalAbnormal = faultFlag result 12,
                     emergencyStopButton = faultFlag result 14,
                     ccSignalAbnormal = faultFlag result 16,
                     dlbWiring = faultFlag result 18,
                     dlbOffline = faultFlag result 20,
                     motorLock = faultFlag result 22,
                     sticking = (if isV108 then Some (faultFlag result 24) else None),
                     contactor = (if isV108 then Some (faultFlag result 26) else None) \<rparr>
      in (ctl \<lparr> lastFaultStatus := Some status, emitted := emitted ctl @ [Ev_fault_status status] \<rparr>,
          status))"

subsection \<open>sendGetRealTimeData\<close>

definition hexField :: "string \<Rightarrow> int \<Rightarrow> int \<Rightarrow> js_integer" where
  "hexField result from to = parseInt (substring result from to) 16"

text \<open>\<^verbatim>\<open>parseInt(...).toString().padStart(2, '0')\<close>, three times, joined by colons.\<close>

definition timeOfDay :: "string \<Rightarrow> int \<Rightarrow> string" where
  "timeOfDay result ptr =
     padStart 2 (CHR ''0'') (numberToString 10 (hexField result ptr (ptr + 2))) @ '':''
     @ padStart 2 (CHR ''0'') (numberToString 10 (hexField result (ptr + 2) (ptr + 4))) @ '':''
     @ padStart 2 (CHR ''0'') (numberToString 10 (hexField result (ptr + 4) (ptr + 6)))"

definition canonicalState :: "js_integer \<Rightarrow> js_integer" where
  "canonicalState s =
     (if s = Finite 4 then ChargerState_Unplugged
      else if s = Finite 3 then ChargerState_Standby
      else s)"

text \<open>
  The read cursor \<^verbatim>\<open>ptr\<close> is a different variable after each \<^verbatim>\<open>ptr += n\<close>: \<open>ptrA\<close> after the
  mode-dependent block, \<open>ptrB\<close> after the state, \<open>ptrC\<close> after the timed-charge flag,
  \<open>ptrD\<close> and \<open>ptrE\<close> after the two times, \<open>ptrF\<close> after the first gate and \<open>ptrG\<close>
  after the second. Reading \<^verbatim>\<open>this.#model.mode\<close> while \<^verbatim>\<open>#model\<close> is still \<^verbatim>\<open>null\<close>
  throws a TypeError.
\<close>

definition sendGetRealTimeData ::
  "Controller \<Rightarrow> ParsedMessage \<Rightarrow> js_error + (Controller \<times> ChargerRealTimeData)" where
  "sendGetRealTimeData ctl msg =
     (case model ctl of
        None \<Rightarrow> Inl TypeError
      | Some m \<Rightarrow>
          let result = data msg;
              resultLengthByte = int (length result);
              onePhase = (mode m = ChargerMode_OnePhase);
              threePhase = (\<not> onePhase \<and> mode m = ChargerMode_ThreePhase);
              ptrA = (if onePhase then 8 else if threePhase then 18 else 0);
              isV106 = (if onePhase then 36 \<le> resultLengthByte
                        else if threePhase then 46 \<le> resultLengthByte else False);
              isV108 = (if onePhase then 42 \<le> resultLengthByte
                        else if threePhase then 52 \<le> resultLengthByte else False);
              isV110 = (if onePhase then 44 \<le> resultLengthByte
                        else if threePhase then 54 \<le> resultLengthByte else False);
              ptrB = ptrA + 12;
              ptrC = ptrB + 2;
              ptrD = ptrC + 6;
              ptrE = ptrD + 6;
              ptrF = (if isV106 then ptrE + 6 else ptrE);
              ptrG = (if isV108 then ptrF + 2 else ptrF);
              d = \<lparr> electricCurrent = (if onePhase then Some (hexField result 0 4) else None),
                    voltage = (if onePhase then Some (hexField result 4 8) else None),
                    electricCurrentA = (if threePhase then Some (hexField result 0 2) else None),
                    electricCurrentB = (if threePhase then Some (hexField result 2 4) else None),
                    electricCurrentC = (if threePhase then Some (hexField result 4 6) else None),
                    voltageA = (if threePhase then Some (hexField result 6 10) else None),
                    voltageB = (if threePhase then Some (hexField result 10 14) else None),
                    voltageC = (if threePhase then Some (hexField result 14 18) else None),
                    powerNow = div10 (hexField result ptrA (ptrA + 4)),
                    totalPower = div10 (hexField result (ptrA + 4) (ptrA + 8)),
                    temperature = minus100 (hexField result (ptrA + 8) (ptrA + 10)),
                    state = canonicalState (hexField result (ptrA + 10) (ptrA + 12)),
                    timedChargeEnabled = (substring result ptrB (ptrB + 2) \<noteq> ''00''),
                    startChargeTime = timeOfDay result ptrC,
                    endChargeTime = timeOfDay result ptrD,
                    maxCurrent = (if isV106 then Some (hexField result 46 48) else None),
                    maxPower = (if isV106 then Some (hexField result 48 50) else None),
                    isReservation = (if isV106 then Some (isOne (hexField result 50 52)) else None),
                    isMaximum = (if isV108 then Some (isOne (hexField result ptrF (ptrF + 2))) else None),
                    isExtremeMode = (if isV110 then Some (isOne (hexField result ptrG (ptrG + 2))) else None) \<rparr>
          in Inr (ctl \<lparr> lastData := Some d, emitted := emitted ctl @ [Ev_realtime_data d] \<rparr>, d))"

subsection \<open>sendGetPowerConsumptionRecordsOfMonth\<close>













subsection \<open>connect\<close>

text \<open>
  \<^verbatim>\<open>connect()\<close>. With a socket it returns at once. While another call is connecting, it
  waits for a \<^verbatim>\<open>connect\<close> or an \<^verbatim>\<open>error\<close> event of the socket being bound; binding emits
  \<^verbatim>\<open>listening\<close>, not \<^verbatim>\<open>connect\<close>, so only an error ends this wait. Otherwise it makes a
  socket and binds it: on \<^verbatim>\<open>listening\<close> the socket is stored, on \<^verbatim>\<open>error\<close> the socket is
  closed and the error thrown. What the socket does is the environment's part: it emits
  \<^verbatim>\<open>listening\<close>, or \<^verbatim>\<open>error\<close>, or nothing.
\<close>

datatype socketEvent = Listening | SocketError string | NoEvent

datatype connected = Connected Controller | ConnectRejected Controller string | ConnectPending Controller

definition connect :: "Controller \<Rightarrow> socketEvent \<Rightarrow> connected" where
  "connect ctl ev =
     (if socket ctl then Connected ctl
      else if connectingSocket ctl then
        (case ev of
           SocketError err \<Rightarrow> ConnectRejected ctl err
         | Listening \<Rightarrow> ConnectPending ctl
         | NoEvent \<Rightarrow> ConnectPending ctl)
      else
        (case ev of
           Listening \<Rightarrow> Connected (ctl \<lparr> socket := True, isConnected := True, connectingSocket := False \<rparr>)
         | SocketError err \<Rightarrow> ConnectRejected (ctl \<lparr> isConnected := False, connectingSocket := False \<rparr>) err
         | NoEvent \<Rightarrow> ConnectPending (ctl \<lparr> connectingSocket := True \<rparr>)))"

text \<open>
  Modelled from the spec: the setter of \<^verbatim>\<open>resultTimeout\<close>. The type declarations of the
  package declare \<^verbatim>\<open>set resultTimeout(timeout: number)\<close> and the spec calls the timeout
  caller-adjustable; \<^verbatim>\<open>src/index.js\<close> has the private field with its initial value 1000
  and the test \<^verbatim>\<open>this.#resultTimeout > 0\<close>, and no setter.
\<close>

definition set_resultTimeout :: "Controller \<Rightarrow> int \<Rightarrow> Controller" where
  "set_resultTimeout ctl timeout = ctl \<lparr> resultTimeout := timeout \<rparr>"

subsection \<open>sendCommand\<close>

text \<open>
  The promise that \<^verbatim>\<open>sendCommand\<close> returns when a result is awaited, as a state machine.
  The state holds the promise (settled at most once: later \<^verbatim>\<open>resolve\<close>/\<^verbatim>\<open>reject\<close> calls
  do nothing), whether \<^verbatim>\<open>onMessage\<close> is registered on the socket, whether the timer is
  armed, and the frame handed to \<^verbatim>\<open>socket.send\<close>, if any. \<^verbatim>\<open>sendCommand\<close> first awaits
  \<^verbatim>\<open>connect()\<close>: when that throws, the promise is rejected with the same error, and while
  it waits the promise stays pending; in both cases no listener is registered, no timer
  armed and nothing sent. After it, the environment is the sequence of callbacks that Node
  runs, in the order it runs them: an inbound datagram, the timer, the completion of
  \<^verbatim>\<open>socket.send\<close> (with the transport's error, if any).
\<close>

datatype promise = Pending | Resolved ParsedMessage | Rejected js_error

record Waiter =
  settled :: promise
  listening :: bool
  timerArmed :: bool
  sent :: "string option"

datatype callback = Inbound string | TimerFires | SendDone "string option"

text \<open>\<^verbatim>\<open>waitForResult\<close> is \<^verbatim>\<open>true\<close> or the response command to wait for (a non-empty
  string; with a falsy \<^verbatim>\<open>waitForResult\<close> no promise of this kind is made).\<close>

datatype waitForResult = WaitTrue | WaitFor string

definition resultCode :: "string \<Rightarrow> waitForResult \<Rightarrow> string" where
  "resultCode cmd w = (case w of WaitFor code \<Rightarrow> code | WaitTrue \<Rightarrow> substring cmd 0 2)"

definition resolve :: "Waiter \<Rightarrow> ParsedMessage \<Rightarrow> Waiter" where
  "resolve w v = (if settled w = Pending then w \<lparr> settled := Resolved v \<rparr> else w)"

definition reject :: "Waiter \<Rightarrow> js_error \<Rightarrow> Waiter" where
  "reject w e = (if settled w = Pending then w \<lparr> settled := Rejected e \<rparr> else w)"

definition onMessage ::
  "string \<Rightarrow> (ParsedMessage \<Rightarrow> bool) option \<Rightarrow> Waiter \<Rightarrow> string \<Rightarrow> Waiter" where
  "onMessage code resultTester w msg =
     (case parseResult msg of
        None \<Rightarrow> w
      | Some result \<Rightarrow>
          if command result \<noteq> code
             \<or> (case resultTester of Some tester \<Rightarrow> \<not> tester result | None \<Rightarrow> False)
          then w
          else resolve (w \<lparr> listening := False \<rparr>) result)"

definition onTimeout :: "Waiter \<Rightarrow> Waiter" where
  "onTimeout w = reject (w \<lparr> listening := False, timerArmed := False \<rparr>) ResultTimedOut"

definition onSendDone :: "Waiter \<Rightarrow> string option \<Rightarrow> Waiter" where
  "onSendDone w err = (case err of Some e \<Rightarrow> reject w (SendFailed e) | None \<Rightarrow> w)"

text \<open>One callback. A datagram reaches \<^verbatim>\<open>onMessage\<close> only while it is registered, and
  the timer runs only if it was armed.\<close>

definition deliver ::
  "string \<Rightarrow> (ParsedMessage \<Rightarrow> bool) option \<Rightarrow> Waiter \<Rightarrow> callback \<Rightarrow> Waiter" where
  "deliver code resultTester w cb =
     (case cb of
        Inbound msg \<Rightarrow> (if listening w then onMessage code resultTester w msg else w)
      | TimerFires \<Rightarrow> (if timerArmed w then onTimeout w else w)
      | SendDone err \<Rightarrow> onSendDone w err)"

text \<open>The promise executor: register the listener, arm the timer if the timeout is
  positive, send the compiled frame.\<close>

definition sendCommand_start :: "Controller \<Rightarrow> string \<Rightarrow> Waiter" where
  "sendCommand_start ctl cmd =
     \<lparr> settled = Pending,
       listening = True,
       timerArmed = (0 < resultTimeout ctl),
       sent = Some (compileMessage (util_password ctl) cmd) \<rparr>"

text \<open>The waiter of a call whose \<^verbatim>\<open>connect()\<close> did not succeed.\<close>

definition notStarted :: "promise \<Rightarrow> Waiter" where
  "notStarted p = \<lparr> settled = p, listening = False, timerArmed = False, sent = None \<rparr>"

definition sendCommand ::
  "Controller \<Rightarrow> socketEvent \<Rightarrow> string \<Rightarrow> waitForResult \<Rightarrow> (ParsedMessage \<Rightarrow> bool) option
     \<Rightarrow> callback list \<Rightarrow> Waiter" where
  "sendCommand ctl ev cmd waitFor resultTester cbs =
     (case connect ctl ev of
        Connected ctl' \<Rightarrow>
          foldl (deliver (resultCode cmd waitFor) resultTester) (sendCommand_start ctl' cmd) cbs
      | ConnectRejected ctl' err \<Rightarrow> notStarted (Rejected (BindFailed err))
      | ConnectPending ctl' \<Rightarrow> notStarted Pending)"

text \<open>The constructor: the given password, and the initial values of the fields.\<close>

definition newController :: "string option \<Rightarrow> Controller" where
  "newController pw =
     \<lparr> util_password = pw,
       resultTimeout = 1000,
       socket = False,
       isConnected = False,
       connectingSocket = False,
       model = None,
       lastFaultStatus = None,
       lastData = None,
       emitted = [] \<rparr>"

section \<open>Notions used to state the properties\<close>

text \<open>A string of hex digits (either case), and a non-empty string of decimal digits.\<close>

definition isHexString :: "string \<Rightarrow> bool" where
  "isHexString s = (\<forall>c\<in>set s. isRadixDigit 16 c)"

definition isDecimalNumeral :: "string \<Rightarrow> bool" where
  "isDecimalNumeral s = (s \<noteq> [] \<and> (\<forall>c\<in>set s. isRadixDigit 10 c))"

text \<open>The number \<open>n\<close> written with exactly \<open>k\<close> lower-case hex digits, most significant
  first (\<open>n\<close> modulo \<open>16^k\<close>).\<close>

primrec hexDigits :: "nat \<Rightarrow> int \<Rightarrow> string" where
  "hexDigits 0 n = []"
| "hexDigits (Suc k) n = hexDigits k (n div 16) @ [digitChar (nat (n mod 16))]"

text \<open>The twelve flags that every fault status has, in the order of the payload.\<close>

definition twelveFlags :: "ChargeFaultStatus \<Rightarrow> bool list" where
  "twelveFlags st =
     [overVoltage st, underVoltage st, overload st, highTemperature st, groundDetection st,
      leakage st, cpSignalAbnormal st, emergencyStopButton st, ccSignalAbnormal st,
      dlbWiring st, dlbOffline st, motorLock st]"


text \<open>An inbound datagram matches a waiter: it parses, carries the expected response
  command, and passes the optional predicate.\<close>

definition matches :: "string \<Rightarrow> (ParsedMessage \<Rightarrow> bool) option \<Rightarrow> string \<Rightarrow> bool" where
  "matches code resultTester msg =
     (case parseResult msg of
        None \<Rightarrow> False
      | Some result \<Rightarrow>
          command result = code
          \<and> (case resultTester of Some tester \<Rightarrow> tester result | None \<Rightarrow> True))"

text \<open>A callback that happens while a waiter is still waiting without a failure: a
  datagram that does not match, or the successful completion of the send.\<close>

definition uneventful :: "string \<Rightarrow> (ParsedMessage \<Rightarrow> bool) option \<Rightarrow> callback \<Rightarrow> bool" where
  "uneventful code resultTester cb =
     (case cb of
        Inbound msg \<Rightarrow> \<not> matches code resultTester msg
      | TimerFires \<Rightarrow> False
      | SendDone err \<Rightarrow> err = None)"

text \<open>A stored password whose credential is well formed: unset, empty, or a decimal
  numeral below \<open>2^32\<close>.\<close>

definition validPassword :: "string option \<Rightarrow> bool" where
  "validPassword pw =
     (case pw of
        None \<Rightarrow> True
      | Some p \<Rightarrow> p = [] \<or> (isDecimalNumeral p \<and> digitsValue 10 p < 2 ^ 32))"

text \<open>The read cursor of \<^verbatim>\<open>sendGetRealTimeData\<close> after the two charge times: 8 or 18
  characters of currents and voltages, then 26 characters that both modes share.\<close>

definition cursorAfterTimes :: "ChargerModel \<Rightarrow> nat" where
  "cursorAfterTimes m = (if mode m = ChargerMode_OnePhase then 34 else 44)"

text \<open>A fresh controller that has learned its charger's mode.\<close>

definition controllerWithMode :: "js_integer \<Rightarrow> Controller" where
  "controllerWithMode md =
     (newController None)
       \<lparr> model := Some \<lparr> mode = md, version = [], firmwareVersion = [], hardwareVersion = [] \<rparr> \<rparr>"

section \<open>Strings and digits\<close>

lemma substring_take_drop:
  "0 \<le> a \<Longrightarrow> a \<le> b \<Longrightarrow> substring s a b = take (nat (b - a)) (drop (nat a) s)"
  by (auto simp: substring_def Let_def min_def max_def)

lemma substringFrom_drop: "0 \<le> a \<Longrightarrow> substringFrom s a = drop (nat a) s"
  by (auto simp: substringFrom_def substring_def Let_def min_def max_def)

lemma substring_of_take:
  "0 \<le> a \<Longrightarrow> a \<le> b \<Longrightarrow> b \<le> int n \<Longrightarrow> substring (take n s) a b = substring s a b"
  by (cases "int (length s) \<le> a") (auto simp: substring_take_drop drop_take min_def)

lemma hexDigit_range:
  "isRadixDigit 16 c \<Longrightarrow>
     (48 \<le> (of_char c :: nat) \<and> (of_char c :: nat) \<le> 57) \<or>
     (97 \<le> (of_char c :: nat) \<and> (of_char c :: nat) \<le> 102) \<or>
     (65 \<le> (of_char c :: nat) \<and> (of_char c :: nat) \<le> 70)"
  by (auto simp: isRadixDigit_def digitValue_def Let_def split: if_splits)

lemma hexDigit_not_special:
  assumes "isRadixDigit 16 c"
  shows "\<not> isWhiteSpace c" "c \<noteq> CHR ''+''" "c \<noteq> CHR ''-''" "c \<noteq> CHR ''x''" "c \<noteq> CHR ''X''"
    "c \<noteq> CHR '' ''"
  using hexDigit_range[OF assms] by (auto simp: isWhiteSpace_def Let_def)

lemma toDouble_small: "\<bar>i\<bar> < 2 ^ 53 \<Longrightarrow> toDouble i = Finite i"
  by (auto simp: toDouble_def Let_def)

lemma parseInt_hex_pair:
  assumes "isRadixDigit 16 a" "isRadixDigit 16 b"
  shows "parseInt [a, b] 16 = Finite (int (digitValue a) * 16 + int (digitValue b))"
proof -
  have "digitValue a < 16" "digitValue b < 16"
    using assms by (simp_all add: isRadixDigit_def)
  then have "\<bar>int (digitValue a) * 16 + int (digitValue b)\<bar> < 2 ^ 53" by simp
  then show ?thesis
    using assms hexDigit_not_special[OF assms(1)] hexDigit_not_special[OF assms(2)]
    by (simp add: parseInt_def Let_def digitsValue_def toDouble_small)
qed

lemma less16_cases:
  "d < (16::nat) \<Longrightarrow> d = 0 \<or> d = 1 \<or> d = 2 \<or> d = 3 \<or> d = 4 \<or> d = 5 \<or> d = 6 \<or> d = 7 \<or> d = 8
     \<or> d = 9 \<or> d = 10 \<or> d = 11 \<or> d = 12 \<or> d = 13 \<or> d = 14 \<or> d = 15"
  by arith

lemma digitValue_digitChar: "d < 16 \<Longrightarrow> digitValue (digitChar d) = d"
  by (drule less16_cases) (auto simp: digitChar_def digitValue_def)

lemma isRadixDigit_digitChar: "d < 16 \<Longrightarrow> isRadixDigit 16 (digitChar d)"
  by (simp add: isRadixDigit_def digitValue_digitChar)

lemma digitChar_0: "digitChar 0 = CHR ''0''"
  by (simp add: digitChar_def)

lemma length_hexDigits: "length (hexDigits k n) = k"
  by (induction k arbitrary: n) simp_all

lemma isHexString_hexDigits: "isHexString (hexDigits k n)"
  by (induction k arbitrary: n) (simp_all add: isHexString_def isRadixDigit_digitChar nat_less_iff)

lemma hexDigits_0: "hexDigits k 0 = replicate k (CHR ''0'')"
  by (induction k) (simp_all add: digitChar_0 replicate_append_same)

lemma padStart_snoc: "padStart (Suc k) c (xs @ [x]) = padStart k c xs @ [x]"
  by (simp add: padStart_def)

text \<open>\<^verbatim>\<open>n.toString(16).padStart(k, '0')\<close> is the \<open>k\<close>-digit rendering when \<open>n\<close> fits.\<close>

lemma padStart_digitsOf:
  "0 < k \<Longrightarrow> 0 \<le> n \<Longrightarrow> n < 16 ^ k \<Longrightarrow> padStart k (CHR ''0'') (digitsOf 16 n) = hexDigits k n"
proof (induction k arbitrary: n)
  case 0
  then show ?case by simp
next
  case (Suc k)
  show ?case
  proof (cases "n < 16")
    case True
    then show ?thesis
      using Suc.prems by (simp add: padStart_def hexDigits_0 digitsOf.simps)
  next
    case False
    then have k: "0 < k" using Suc.prems by (cases k) auto
    have "n div 16 < 16 ^ k" "0 \<le> n div 16" using Suc.prems by auto
    with Suc.IH k have "padStart k (CHR ''0'') (digitsOf 16 (n div 16)) = hexDigits k (n div 16)"
      by simp
    moreover have "digitsOf 16 n = digitsOf 16 (n div 16) @ [digitChar (nat (n mod 16))]"
      using False by (subst digitsOf.simps) simp
    ultimately show ?thesis
      by (simp only: padStart_snoc hexDigits.simps)
  qed
qed

lemma removeSpaces_hex: "isHexString s \<Longrightarrow> removeSpaces s = s"
  unfolding removeSpaces_def isHexString_def
  by (rule filter_True) (auto dest: hexDigit_not_special(6))

lemma isHexString_append: "isHexString (xs @ ys) \<longleftrightarrow> isHexString xs \<and> isHexString ys"
  by (auto simp: isHexString_def)

section \<open>The checksum of a hex string\<close>

lemma checksumLoop_hex:
  "isHexString s \<Longrightarrow> even (length s) \<Longrightarrow> 0 \<le> a \<Longrightarrow> a + 255 * int (length s) < 2 ^ 53
     \<Longrightarrow> \<exists>k. checksumLoop s (Finite a) = Finite k \<and> 0 \<le> k"
proof (induction s "Finite a :: js_integer" arbitrary: a rule: checksumLoop.induct)
  case (1 x y rest)
  have xy: "isRadixDigit 16 x" "isRadixDigit 16 y" and rest: "isHexString rest" "even (length rest)"
    using "1.prems" by (simp_all add: isHexString_def)
  let ?b = "int (digitValue x) * 16 + int (digitValue y)"
  have b: "0 \<le> ?b" "?b \<le> 255"
    using xy by (simp_all add: isRadixDigit_def)
  have "js_add (Finite a) (parseInt [x, y] 16) = Finite (a + ?b)"
    using b "1.prems"(3,4) by (simp add: parseInt_hex_pair[OF xy] js_add_def toDouble_small)
  moreover have "\<exists>k. checksumLoop rest (Finite (a + ?b)) = Finite k \<and> 0 \<le> k"
    using b "1.prems"(3,4) rest
    by (intro "1.hyps") (simp_all add: parseInt_hex_pair[OF xy] js_add_def toDouble_small)
  ultimately show ?case by simp
next
  case (2 x)
  then show ?case by simp
next
  case 3
  then show ?case by simp
qed

lemma checksum_hex:
  assumes "isHexString s" "length s < 2 ^ 32"
  shows "length (checksum s) = 2 \<and> isHexString (checksum s)"
proof (cases "s = [] \<or> odd (length s)")
  case True
  then show ?thesis
    using assms
    by (auto simp: checksum_def removeSpaces_hex isHexString_def isRadixDigit_def digitValue_def)
next
  case False
  then have ev: "even (length s)" and ne: "s \<noteq> []" by auto
  have "(0::int) + 255 * int (length s) < 2 ^ 53" using assms(2) by simp
  from checksumLoop_hex[OF assms(1) ev _ this]
  obtain k where k: "checksumLoop s (Finite 0) = Finite k" "0 \<le> k" by auto
  have "k mod 256 < 16 ^ 2" "0 \<le> k mod 256" by simp_all
  then have "padStart 2 (CHR ''0'') (digitsOf 16 (k mod 256)) = hexDigits 2 (k mod 256)"
    by (intro padStart_digitsOf) simp_all
  moreover have "js_rem (Finite k) 256 = Finite (k mod 256)"
    using k(2) by (simp add: js_rem_def)
  moreover have "\<not> k mod 256 < 0" by simp
  ultimately have "checksum s = hexDigits 2 (k mod 256)"
    using ne ev k(1) assms(1)
    by (simp add: checksum_def removeSpaces_hex numberToString_def)
  then show ?thesis
    by (simp only: length_hexDigits isHexString_hexDigits)
qed

section \<open>parseResult\<close>

lemma testChecksum_eq:
  "2 \<le> length input \<Longrightarrow>
     testChecksum input \<longleftrightarrow> checksum (take (length input - 2) input) = drop (length input - 2) input"
  by (simp add: testChecksum_def Let_def substringFrom_drop substring_take_drop nat_diff_distrib)

lemma startsWith_header: "startsWith input FRAME_HEADER \<longleftrightarrow> take 4 input = ''55aa''"
proof -
  have "length ''55aa'' = 4" by simp
  then show ?thesis unfolding startsWith_def FRAME_HEADER_def by (simp only:)
qed

text \<open>
  Claim C2. \<^verbatim>\<open>parseResult\<close> returns no value exactly when the input is empty, is shorter
  than 13 characters, does not start with \<^verbatim>\<open>55aa\<close>, or its last two characters differ
  from the checksum of everything before them; in every other case it returns the input as
  \<open>raw\<close>, its characters 10 and 11 as \<open>command\<close> and everything from character 12 on as
  \<open>data\<close>.
\<close>

theorem parseResult_cases:
  "(parseResult input = None \<longleftrightarrow>
      (input = [] \<or> length input < 13 \<or> take 4 input \<noteq> ''55aa''
       \<or> drop (length input - 2) input \<noteq> checksum (take (length input - 2) input)))
   \<and> (parseResult input \<noteq> None \<longrightarrow>
        parseResult input = Some \<lparr> raw = input, command = take 2 (drop 10 input), data = drop 12 input \<rparr>)"
proof (cases "length input < 13")
  case True
  then show ?thesis by (simp add: parseResult_def)
next
  case False
  then have "2 \<le> length input" by simp
  from testChecksum_eq[OF this] False show ?thesis
    by (auto simp: parseResult_def startsWith_header substring_take_drop substringFrom_drop)
qed

theorem parseResult_cases_witness:
  "parseResult ''55aa000104020006'' \<noteq> None
   \<and> parseResult ''55aa000104020006''
       = Some \<lparr> raw = ''55aa000104020006'', command = ''02'', data = ''0006'' \<rparr>"
proof -
  let ?s = "''55aa000104020006''"
  have h: "parseResult ?s \<noteq> None"
    by code_simp
  have "parseResult ?s \<noteq> None \<longrightarrow>
          parseResult ?s = Some \<lparr> raw = ?s, command = take 2 (drop 10 ?s), data = drop 12 ?s \<rparr>"
    by (rule conjunct2[OF parseResult_cases])
  with h have "parseResult ?s = Some \<lparr> raw = ?s, command = take 2 (drop 10 ?s), data = drop 12 ?s \<rparr>"
    by blast
  then show ?thesis by simp
qed

section \<open>compileMessage\<close>

lemma parseResult_long:
  "13 \<le> length input \<Longrightarrow>
     parseResult input =
       (if take 4 input = ''55aa''
           \<and> checksum (take (length input - 2) input) = drop (length input - 2) input
        then Some \<lparr> raw = input, command = take 2 (drop 10 input), data = drop 12 input \<rparr>
        else None)"
  using testChecksum_eq[of input]
  by (auto simp: parseResult_def startsWith_header substring_take_drop substringFrom_drop)

lemma decimal_is_hex: "isRadixDigit 10 c \<Longrightarrow> isRadixDigit 16 c"
  by (simp add: isRadixDigit_def)

lemma foldl_digits_nonneg:
  "0 \<le> a \<Longrightarrow> 0 \<le> foldl (\<lambda>acc c. acc * int R + int (digitValue c)) a Z"
  by (induction Z arbitrary: a) simp_all

lemma digitsValue_nonneg: "0 \<le> digitsValue R Z"
  by (simp add: digitsValue_def foldl_digits_nonneg)

lemma parseInt_decimal:
  assumes "isDecimalNumeral p"
  shows "parseInt p 10 = toDouble (digitsValue 10 p)"
proof -
  obtain c cs where p: "p = c # cs" using assms by (cases p) (auto simp: isDecimalNumeral_def)
  have all: "\<forall>x\<in>set p. isRadixDigit 10 x" using assms by (simp add: isDecimalNumeral_def)
  then have c: "isRadixDigit 16 c" using p by (simp add: decimal_is_hex)
  have tw: "takeWhile (isRadixDigit 10) p = p" using all by (simp add: takeWhile_eq_all_conv)
  show ?thesis
    using hexDigit_not_special[OF c] tw p
    by (simp add: parseInt_def Let_def)
qed

lemma encodedPwd_decimal:
  assumes "isDecimalNumeral p" "digitsValue 10 p < 2 ^ 32"
  shows "encodedPwd (Some p) = hexDigits 8 (digitsValue 10 p)"
proof -
  have ne: "p \<noteq> []" using assms(1) by (simp add: isDecimalNumeral_def)
  have nn: "0 \<le> digitsValue 10 p" by (rule digitsValue_nonneg)
  then have "toDouble (digitsValue 10 p) = Finite (digitsValue 10 p)"
    using assms(2) by (intro toDouble_small) simp
  moreover have "padStart 8 (CHR ''0'') (digitsOf 16 (digitsValue 10 p)) = hexDigits 8 (digitsValue 10 p)"
    using nn assms(2) by (intro padStart_digitsOf) simp_all
  ultimately show ?thesis
    using ne nn by (simp add: encodedPwd_def passwordOrDefault_def parseInt_decimal[OF assms(1)]
        numberToString_def)
qed

lemma encodedPwd_default: "encodedPwd None = ''0001e240''" "encodedPwd (Some []) = ''0001e240''"
  by code_simp+

lemma encodedPwd_ok:
  assumes "validPassword pw"
  shows "length (encodedPwd pw) = 8 \<and> isHexString (encodedPwd pw)"
proof (cases "pw = None \<or> pw = Some []")
  case True
  then show ?thesis
    by (auto simp: encodedPwd_default isHexString_def isRadixDigit_def digitValue_def)
next
  case False
  then obtain p where "pw = Some p" "isDecimalNumeral p" "digitsValue 10 p < 2 ^ 32"
    using assms by (auto simp: validPassword_def split: option.splits)
  then show ?thesis
    by (simp add: encodedPwd_decimal length_hexDigits isHexString_hexDigits)
qed

lemma lengthHex_ok:
  assumes "length (encodedPwd pw) = 8" "length cmd \<le> 491"
  shows "length (lengthHex pw cmd) = 2 \<and> isHexString (lengthHex pw cmd)"
proof -
  let ?n = "int ((length FRAME_HEADER + length MESSAGE_ID + length (encodedPwd pw) + length cmd) div 2 + 2)"
  have "length FRAME_HEADER = 4" "length MESSAGE_ID = 4"
    by (simp_all add: FRAME_HEADER_def MESSAGE_ID_def)
  then have "0 \<le> ?n" "?n < 16 ^ 2" using assms by simp_all
  then have "padStart 2 (CHR ''0'') (digitsOf 16 ?n) = hexDigits 2 ?n"
    by (intro padStart_digitsOf) simp_all
  then have "lengthHex pw cmd = hexDigits 2 ?n"
    by (simp add: lengthHex_def numberToString_def)
  then show ?thesis
    by (simp only: length_hexDigits isHexString_hexDigits)
qed

lemma header_hex: "isHexString ''55aa0001''"
  by (simp add: isHexString_def isRadixDigit_def digitValue_def)

lemma compileFull_eq:
  "compileFull pw cmd = ''55aa0001'' @ lengthHex pw cmd @ encodedPwd pw @ cmd"
  by (simp add: compileFull_def FRAME_HEADER_def MESSAGE_ID_def)

lemma parse_compiled:
  assumes cmd: "isHexString cmd" "length cmd \<le> 491"
    and pw: "length (encodedPwd pw) = 8" "isHexString (encodedPwd pw)"
  shows "parseResult (compileMessage pw cmd) =
     Some \<lparr> raw = compileMessage pw cmd,
            command = take 2 (encodedPwd pw),
            data = drop 2 (encodedPwd pw) @ cmd @ checksum (compileFull pw cmd) \<rparr>"
proof -
  let ?L = "lengthHex pw cmd" and ?P = "encodedPwd pw"
  let ?full = "compileFull pw cmd"
  let ?chk = "checksum ?full"
  have L: "length ?L = 2" "isHexString ?L"
    using lengthHex_ok[OF pw(1) cmd(2)] by simp_all
  have full: "?full = ''55aa0001'' @ ?L @ ?P @ cmd" by (rule compileFull_eq)
  have fullhex: "isHexString ?full"
    unfolding full using header_hex L(2) pw(2) cmd(1) by (simp only: isHexString_append)
  have fulllen: "length ?full = 18 + length cmd"
    unfolding full using L(1) pw(1) by simp
  then have "length ?full < 2 ^ 32" using cmd(2) by simp
  from checksum_hex[OF fullhex this] have chk: "length ?chk = 2" by simp
  have frame: "compileMessage pw cmd = ?full @ ?chk" by (simp add: compileMessage_def)
  have len: "length (compileMessage pw cmd) = 20 + length cmd"
    unfolding frame using fulllen chk by simp
  have t1: "take (length (compileMessage pw cmd) - 2) (compileMessage pw cmd) = ?full"
    unfolding len unfolding frame using fulllen by simp
  have t2: "drop (length (compileMessage pw cmd) - 2) (compileMessage pw cmd) = ?chk"
    unfolding len unfolding frame using fulllen by simp
  have t3: "take 4 (compileMessage pw cmd) = ''55aa''"
    unfolding frame full by simp
  have t4: "drop 10 (compileMessage pw cmd) = ?P @ cmd @ ?chk"
    unfolding frame unfolding full using L(1) by simp
  have t5: "drop 12 (compileMessage pw cmd) = drop 2 ?P @ cmd @ ?chk"
    unfolding frame unfolding full using L(1) pw(1) by simp
  have "13 \<le> length (compileMessage pw cmd)" using len by simp
  from parseResult_long[OF this] show ?thesis
    unfolding t1 t2 t3 t4 t5 using pw(1) by simp
qed

text \<open>
  Claim C1, as amended. For every command string of hex digits, short enough for the
  one-byte length field (at most 491 characters), and a stored password that is unset,
  empty or a decimal numeral below \<open>2^32\<close>, \<^verbatim>\<open>parseResult(compileMessage(cmd))\<close> succeeds
  and returns the frame as \<open>raw\<close>. The compiled frame carries the eight-digit credential
  before the command, at the place where \<^verbatim>\<open>parseResult\<close> reads the command of a response:
  the parsed \<open>command\<close> is the first two hex digits of the credential, and the parsed
  \<open>data\<close> is the other six digits of the credential, then \<open>cmd\<close>, then the checksum.
\<close>

theorem parseResult_compileMessage:
  assumes "isHexString cmd" and "length cmd \<le> 491" and "validPassword pw"
  shows "parseResult (compileMessage pw cmd) =
     Some \<lparr> raw = compileMessage pw cmd,
            command = take 2 (encodedPwd pw),
            data = drop 2 (encodedPwd pw) @ cmd @ checksum (compileFull pw cmd) \<rparr>"
  using assms(1,2) encodedPwd_ok[OF assms(3)] by (intro parse_compiled) simp_all

theorem parseResult_compileMessage_witness:
  "isHexString ''6e'' \<and> length ''6e'' \<le> 491 \<and> validPassword (Some ''654321'')
   \<and> parseResult (compileMessage (Some ''654321'') ''6e'') =
       Some \<lparr> raw = ''55aa00010b0009fbf16e6e'', command = ''00'', data = ''09fbf16e6e'' \<rparr>"
proof -
  have h1: "isHexString ''6e''" by code_simp
  have h2: "length ''6e'' \<le> 491" by simp
  have h3: "validPassword (Some ''654321'')" by code_simp
  have e1: "compileMessage (Some ''654321'') ''6e'' = ''55aa00010b0009fbf16e6e''" by code_simp
  have e2: "encodedPwd (Some ''654321'') = ''0009fbf1''" by code_simp
  have e3: "checksum (compileFull (Some ''654321'') ''6e'') = ''6e''" by code_simp
  from parseResult_compileMessage[OF h1 h2 h3] h1 h2 h3 show ?thesis
    unfolding e1 e2 e3 by simp
qed

theorem parseResult_compileMessage_counterexample:
  "parseResult (compileMessage (Some ''123456'') ''0401'') =
     Some \<lparr> raw = ''55aa00010c0001e240040134'', command = ''00'', data = ''01e240040134'' \<rparr>
   \<and> ''00'' \<noteq> take 2 ''0401'' \<and> ''01e240040134'' \<noteq> drop 2 ''0401''"
  by code_simp

text \<open>
  Claim C8, as amended. When the stored password is unset or empty, the credential is the
  default 123456 as eight hex digits, \<^verbatim>\<open>0001e240\<close>; when it is a decimal numeral below
  \<open>2^32\<close>, the credential is its value as eight hex digits. Every compiled frame carries
  the credential between the length byte and the command.
\<close>

theorem credential_of_password:
  "((pw = None \<or> pw = Some []) \<longrightarrow> encodedPwd pw = ''0001e240'')
   \<and> (isDecimalNumeral p \<and> digitsValue 10 p < 2 ^ 32 \<longrightarrow>
        parseInt p 10 = Finite (digitsValue 10 p)
        \<and> encodedPwd (Some p) = hexDigits 8 (digitsValue 10 p))
   \<and> compileMessage pw cmd =
       ''55aa0001'' @ lengthHex pw cmd @ encodedPwd pw @ cmd
         @ checksum (''55aa0001'' @ lengthHex pw cmd @ encodedPwd pw @ cmd)"
proof (intro conjI impI)
  assume "pw = None \<or> pw = Some []"
  then show "encodedPwd pw = ''0001e240''"
    by (auto simp: encodedPwd_default)
next
  assume p: "isDecimalNumeral p \<and> digitsValue 10 p < 2 ^ 32"
  then have "\<bar>digitsValue 10 p\<bar> < 2 ^ 53"
    using digitsValue_nonneg[of 10 p] by simp
  then show "parseInt p 10 = Finite (digitsValue 10 p)"
    using p by (simp add: parseInt_decimal toDouble_small)
  show "encodedPwd (Some p) = hexDigits 8 (digitsValue 10 p)"
    using p by (simp add: encodedPwd_decimal)
next
  show "compileMessage pw cmd =
       ''55aa0001'' @ lengthHex pw cmd @ encodedPwd pw @ cmd
         @ checksum (''55aa0001'' @ lengthHex pw cmd @ encodedPwd pw @ cmd)"
    by (simp add: compileMessage_def compileFull_eq)
qed

theorem credential_of_password_witness:
  "((None :: string option) = None \<or> None = Some [])
   \<and> encodedPwd None = ''0001e240''
   \<and> isDecimalNumeral ''654321'' \<and> digitsValue 10 ''654321'' < 2 ^ 32
   \<and> encodedPwd (Some ''654321'') = ''0009fbf1''"
proof -
  have d: "isDecimalNumeral ''654321'' \<and> digitsValue 10 ''654321'' < 2 ^ 32"
    by code_simp
  have v: "hexDigits 8 (digitsValue 10 ''654321'') = ''0009fbf1''"
    by code_simp
  note t = credential_of_password[of None "''654321''" "''6e''"]
  have "encodedPwd None = ''0001e240''"
    using t by blast
  moreover have "encodedPwd (Some ''654321'') = hexDigits 8 (digitsValue 10 ''654321'')"
    using t d by blast
  ultimately show ?thesis using d v by simp
qed

theorem credential_of_password_counterexample:
  "take 8 (drop 10 (compileMessage (Some ''abc'') ''04'')) = ''00000NaN''
   \<and> encodedPwd (Some ''abc'') \<noteq> ''0001e240''"
  by code_simp

section \<open>sendGetFaultStatus\<close>

lemma of_char_48: "(of_char c :: nat) = 48 \<longleftrightarrow> c = CHR ''0''"
proof -
  have "(of_char c :: nat) = of_char CHR ''0'' \<longleftrightarrow> c = CHR ''0''"
    by (simp only: of_char_eq_iff)
  then show ?thesis by simp
qed

lemma digitValue_eq_0: "digitValue c = 0 \<longleftrightarrow> c = CHR ''0''"
  by (auto simp: digitValue_def Let_def of_char_48[symmetric])

lemma digitValue_le: "digitValue c \<le> 36"
  by (auto simp: digitValue_def Let_def)

lemma parseInt_single_hex: "parseInt [c] 16 = Finite 0 \<longleftrightarrow> c = CHR ''0''"
proof (cases "c = CHR ''0''")
  case True
  then show ?thesis by (simp add: parseInt_def Let_def isWhiteSpace_def isRadixDigit_def
        digitValue_def digitsValue_def toDouble_def)
next
  case False
  then have nz: "digitValue c \<noteq> 0" by (simp add: digitValue_eq_0)
  have small: "toDouble (int (digitValue c)) = Finite (int (digitValue c))"
    using digitValue_le[of c] by (intro toDouble_small) simp
  show ?thesis
    using False nz small
    by (auto simp: parseInt_def Let_def digitsValue_def isRadixDigit_def)
qed

lemma parseInt_empty: "parseInt [] R = NaN"
  by (simp add: parseInt_def Let_def)

lemma faultFlag_eq: "0 \<le> i \<Longrightarrow> faultFlag result i = (parseInt (take 2 (drop (nat i) result)) 16 \<noteq> Finite 0)"
  by (simp add: faultFlag_def notZero_def substring_take_drop)

lemma parseInt_01: "parseInt ''01'' 16 = Finite 1"
  by code_simp

text \<open>
  Claim C3. For every GetFaultStatus payload the twelve flags \<open>overVoltage\<close> to
  \<open>motorLock\<close> are decoded from its first 24 characters, flag number \<open>i\<close> from the two
  characters at \<open>2 * i\<close>; \<open>sticking\<close> and \<open>contactor\<close> are present exactly when the payload
  has at least 26 characters. A payload of exactly 24 characters gives the twelve flags
  with \<open>sticking\<close> and \<open>contactor\<close> absent, and the same payload followed by \<^verbatim>\<open>0101\<close> gives
  the same twelve flags with \<open>sticking\<close> and \<open>contactor\<close> both true.
\<close>

theorem faultStatus_flags:
  "twelveFlags (snd (sendGetFaultStatus ctl msg))
     = map (\<lambda>i. parseInt (take 2 (drop (2 * i) (data msg))) 16 \<noteq> Finite 0) [0..<12]
   \<and> twelveFlags (snd (sendGetFaultStatus ctl msg))
       = twelveFlags (snd (sendGetFaultStatus ctl (msg \<lparr> data := take 24 (data msg) \<rparr>)))
   \<and> (sticking (snd (sendGetFaultStatus ctl msg)) \<noteq> None \<longleftrightarrow> 26 \<le> length (data msg))
   \<and> (contactor (snd (sendGetFaultStatus ctl msg)) \<noteq> None \<longleftrightarrow> 26 \<le> length (data msg))
   \<and> (length (data msg) = 24 \<longrightarrow>
        sticking (snd (sendGetFaultStatus ctl msg)) = None
        \<and> contactor (snd (sendGetFaultStatus ctl msg)) = None
        \<and> twelveFlags (snd (sendGetFaultStatus ctl (msg \<lparr> data := data msg @ ''0101'' \<rparr>)))
            = twelveFlags (snd (sendGetFaultStatus ctl msg))
        \<and> sticking (snd (sendGetFaultStatus ctl (msg \<lparr> data := data msg @ ''0101'' \<rparr>))) = Some True
        \<and> contactor (snd (sendGetFaultStatus ctl (msg \<lparr> data := data msg @ ''0101'' \<rparr>))) = Some True)"
proof -
  have upt12: "[0..<12] = [0, 1, 2, 3, 4, 5, 6, 7, 8, 9, 10, 11]"
    by (simp add: upt_rec)
  have flags: "twelveFlags (snd (sendGetFaultStatus c m))
     = map (\<lambda>i. parseInt (take 2 (drop (2 * i) (data m))) 16 \<noteq> Finite 0) [0..<12]" for c m
    unfolding upt12 by (simp add: sendGetFaultStatus_def twelveFlags_def Let_def faultFlag_eq)
  have gate: "sticking (snd (sendGetFaultStatus c m)) \<noteq> None \<longleftrightarrow> 26 \<le> length (data m)"
     "contactor (snd (sendGetFaultStatus c m)) \<noteq> None \<longleftrightarrow> 26 \<le> length (data m)" for c m
    by (simp_all add: sendGetFaultStatus_def Let_def)
  have first24: "twelveFlags (snd (sendGetFaultStatus ctl msg))
       = twelveFlags (snd (sendGetFaultStatus ctl (msg \<lparr> data := take 24 (data msg) \<rparr>)))"
    unfolding flags upt12 by (simp add: drop_take)
  have scen: "twelveFlags (snd (sendGetFaultStatus ctl (msg \<lparr> data := data msg @ ''0101'' \<rparr>)))
            = twelveFlags (snd (sendGetFaultStatus ctl msg))
        \<and> sticking (snd (sendGetFaultStatus ctl (msg \<lparr> data := data msg @ ''0101'' \<rparr>))) = Some True
        \<and> contactor (snd (sendGetFaultStatus ctl (msg \<lparr> data := data msg @ ''0101'' \<rparr>))) = Some True"
    if len: "length (data msg) = 24"
  proof -
    have "twelveFlags (snd (sendGetFaultStatus ctl (msg \<lparr> data := data msg @ ''0101'' \<rparr>)))
            = twelveFlags (snd (sendGetFaultStatus ctl msg))"
      unfolding flags upt12 using len by simp
    moreover have "sticking (snd (sendGetFaultStatus ctl (msg \<lparr> data := data msg @ ''0101'' \<rparr>))) = Some True"
      using len by (simp add: sendGetFaultStatus_def Let_def faultFlag_eq parseInt_01)
    moreover have "contactor (snd (sendGetFaultStatus ctl (msg \<lparr> data := data msg @ ''0101'' \<rparr>))) = Some True"
      using len by (simp add: sendGetFaultStatus_def Let_def faultFlag_eq parseInt_01)
    ultimately show ?thesis by blast
  qed
  have none: "sticking (snd (sendGetFaultStatus ctl msg)) = None
        \<and> contactor (snd (sendGetFaultStatus ctl msg)) = None" if "length (data msg) = 24"
    using that by (simp add: sendGetFaultStatus_def Let_def)
  show ?thesis
    using flags[of ctl msg] first24 gate[of ctl msg] scen none by blast
qed

theorem faultStatus_flags_witness:
  "length (data \<lparr> raw = ''55aa0001126e000100000000000000000081'', command = ''6e'',
                    data = ''000100000000000000000081'' \<rparr>) = 24
   \<and> sticking (snd (sendGetFaultStatus (newController None)
        \<lparr> raw = ''55aa0001126e000100000000000000000081'', command = ''6e'',
          data = ''000100000000000000000081'' \<rparr>)) = None
   \<and> contactor (snd (sendGetFaultStatus (newController None)
        \<lparr> raw = ''55aa0001126e000100000000000000000081'', command = ''6e'',
          data = ''000100000000000000000081'' @ ''0101'' \<rparr>)) = Some True"
proof -
  let ?m = "\<lparr> raw = ''55aa0001126e000100000000000000000081'', command = ''6e'',
              data = ''000100000000000000000081'' \<rparr>"
  have len: "length (data ?m) = 24" by simp
  note scenario = faultStatus_flags[of "newController None" ?m,
      THEN conjunct2, THEN conjunct2, THEN conjunct2, THEN conjunct2]
  from mp[OF scenario len] len show ?thesis by simp
qed

text \<open>
  Claim C9, as amended. For a payload of exactly 26 characters \<open>contactor\<close> is present and
  true whatever the payload holds: the substring at 26 to 28 is empty and \<^verbatim>\<open>parseInt\<close> of
  it is \<^verbatim>\<open>NaN\<close>. For a payload of exactly 27 characters that substring is the one
  character at offset 26, and \<open>contactor\<close> is present and true unless that character is
  \<^verbatim>\<open>0\<close>: \<^verbatim>\<open>parseInt\<close> of a single \<^verbatim>\<open>0\<close> is the number 0, not \<^verbatim>\<open>NaN\<close>.
\<close>

theorem contactor_short_payload:
  "(length (data msg) = 26 \<longrightarrow> contactor (snd (sendGetFaultStatus ctl msg)) = Some True)
   \<and> (length (data msg) = 27 \<longrightarrow>
        contactor (snd (sendGetFaultStatus ctl msg)) = Some (data msg ! 26 \<noteq> CHR ''0''))"
proof (intro conjI impI)
  assume len: "length (data msg) = 26"
  then have "drop 26 (data msg) = []" by simp
  then show "contactor (snd (sendGetFaultStatus ctl msg)) = Some True"
    using len by (simp add: sendGetFaultStatus_def Let_def faultFlag_eq parseInt_empty)
next
  assume len: "length (data msg) = 27"
  then have "drop 26 (data msg) = [data msg ! 26]"
    by (metis Cons_nth_drop_Suc drop_all lessI numeral_nat(7) order_refl eval_nat_numeral(3))
  then show "contactor (snd (sendGetFaultStatus ctl msg)) = Some (data msg ! 26 \<noteq> CHR ''0'')"
    using len by (simp add: sendGetFaultStatus_def Let_def faultFlag_eq parseInt_single_hex)
qed

theorem contactor_short_payload_witness:
  "length (data \<lparr> raw = ''55aa0001136e00000000000000000000000182'', command = ''6e'',
                    data = ''00000000000000000000000182'' \<rparr>) = 26
   \<and> contactor (snd (sendGetFaultStatus (newController None)
        \<lparr> raw = ''55aa0001136e00000000000000000000000182'', command = ''6e'',
          data = ''00000000000000000000000182'' \<rparr>)) = Some True
   \<and> length (data \<lparr> raw = ''55aa0001136e010000000000000000000001000'', command = ''6e'',
                    data = ''010000000000000000000001000'' \<rparr>) = 27
   \<and> contactor (snd (sendGetFaultStatus (newController None)
        \<lparr> raw = ''55aa0001136e010000000000000000000001000'', command = ''6e'',
          data = ''010000000000000000000001000'' \<rparr>)) = Some False"
proof -
  let ?m = "\<lparr> raw = ''55aa0001136e00000000000000000000000182'', command = ''6e'',
              data = ''00000000000000000000000182'' \<rparr>"
  let ?n = "\<lparr> raw = ''55aa0001136e010000000000000000000001000'', command = ''6e'',
              data = ''010000000000000000000001000'' \<rparr>"
  have m: "length (data ?m) = 26" by simp
  have n: "length (data ?n) = 27" by simp
  have "contactor (snd (sendGetFaultStatus (newController None) ?m)) = Some True"
    by (rule mp[OF conjunct1[OF contactor_short_payload] m])
  moreover have "contactor (snd (sendGetFaultStatus (newController None) ?n))
      = Some (data ?n ! 26 \<noteq> CHR ''0'')"
    by (rule mp[OF conjunct2[OF contactor_short_payload] n])
  then have "contactor (snd (sendGetFaultStatus (newController None) ?n)) = Some False"
    by simp
  ultimately show ?thesis using m n by simp
qed

theorem contactor_27_counterexample:
  "parseResult ''55aa0001136e000000000000000000000000000'' =
     Some \<lparr> raw = ''55aa0001136e000000000000000000000000000'', command = ''6e'',
            data = ''000000000000000000000000000'' \<rparr>
   \<and> length ''000000000000000000000000000'' = 27
   \<and> contactor (snd (sendGetFaultStatus (newController None)
        \<lparr> raw = ''55aa0001136e000000000000000000000000000'', command = ''6e'',
          data = ''000000000000000000000000000'' \<rparr>)) = Some False"
  by code_simp

section \<open>sendCommand\<close>

lemma deliver_uneventful:
  "uneventful code tester cb \<Longrightarrow> deliver code tester w cb = w"
  by (cases cb)
    (auto simp: uneventful_def deliver_def onMessage_def matches_def onSendDone_def
      split: option.splits)

lemma foldl_uneventful:
  "\<forall>cb\<in>set cbs. uneventful code tester cb \<Longrightarrow> foldl (deliver code tester) w cbs = w"
  by (induction cbs arbitrary: w) (simp_all add: deliver_uneventful)

text \<open>A settled promise stays as it is; a listener that is off stays off.\<close>

lemma deliver_settled:
  "settled w \<noteq> Pending \<Longrightarrow> settled (deliver code tester w cb) = settled w"
  by (cases cb)
    (auto simp: deliver_def onMessage_def onTimeout_def onSendDone_def reject_def resolve_def
      split: option.splits)

lemma foldl_settled:
  "settled w \<noteq> Pending \<Longrightarrow> settled (foldl (deliver code tester) w cbs) = settled w"
proof (induction cbs arbitrary: w)
  case Nil
  then show ?case by simp
next
  case (Cons cb cbs)
  from deliver_settled[OF Cons.prems, of code tester cb] Cons.prems
  have "settled (deliver code tester w cb) \<noteq> Pending" by simp
  from Cons.IH[OF this] deliver_settled[OF Cons.prems, of code tester cb]
  show ?case by simp
qed

lemma deliver_not_listening:
  "\<not> listening w \<Longrightarrow> \<not> listening (deliver code tester w cb)"
  by (cases cb)
    (auto simp: deliver_def onTimeout_def onSendDone_def reject_def split: option.splits)

lemma foldl_not_listening:
  "\<not> listening w \<Longrightarrow> \<not> listening (foldl (deliver code tester) w cbs)"
  by (induction cbs arbitrary: w) (simp_all add: deliver_not_listening)

lemma deliver_no_timer:
  "\<not> timerArmed w \<Longrightarrow> settled w \<noteq> Rejected ResultTimedOut \<Longrightarrow>
     \<not> timerArmed (deliver code tester w cb)
     \<and> settled (deliver code tester w cb) \<noteq> Rejected ResultTimedOut"
  by (cases cb)
    (auto simp: deliver_def onMessage_def onSendDone_def reject_def resolve_def
      split: option.splits)

lemma foldl_no_timer:
  "\<not> timerArmed w \<Longrightarrow> settled w \<noteq> Rejected ResultTimedOut \<Longrightarrow>
     \<not> timerArmed (foldl (deliver code tester) w cbs)
     \<and> settled (foldl (deliver code tester) w cbs) \<noteq> Rejected ResultTimedOut"
proof (induction cbs arbitrary: w)
  case Nil
  then show ?case by simp
next
  case (Cons cb cbs)
  from deliver_no_timer[OF Cons.prems, of code tester cb]
  show ?case by (simp add: Cons.IH)
qed

lemma connect_keeps:
  "connect ctl ev = Connected ctl' \<Longrightarrow>
     resultTimeout ctl' = resultTimeout ctl \<and> util_password ctl' = util_password ctl"
  by (auto simp: connect_def split: if_splits socketEvent.splits)

lemma sendCommand_connected:
  "connect ctl ev = Connected ctl' \<Longrightarrow>
     sendCommand ctl ev cmd waitFor tester cbs
       = foldl (deliver (resultCode cmd waitFor) tester) (sendCommand_start ctl' cmd) cbs"
  by (simp add: sendCommand_def)

text \<open>
  Claim C6, as amended. \<^verbatim>\<open>sendCommand\<close> is called with a response expected and
  \<^verbatim>\<open>connect()\<close> succeeds. If the configured timeout is positive and, until the timer
  fires, the send does not fail and no inbound datagram matches (parses, carries the
  expected response command and passes the optional predicate), then up to that moment the
  promise is pending, the message listener registered, the timer armed and the compiled
  frame sent; when the timer fires the promise is rejected with the timeout error and the
  listener is deregistered, whatever arrives afterwards: a matching frame that comes after
  the timer does not resolve the waiter. A matching frame that comes before the timer
  resolves the promise with the parsed message and deregisters the listener. A send that
  fails before the timer rejects the promise with the transport's error, and the timer no
  longer changes that. If the configured timeout is zero, no timer is armed and the promise
  is never rejected with the timeout error.
\<close>

theorem sendCommand_timeout:
  assumes "connect ctl ev = Connected ctl'"
  shows
  "(0 < resultTimeout ctl \<and> (\<forall>cb\<in>set before. uneventful (resultCode cmd waitFor) tester cb) \<longrightarrow>
      settled (sendCommand ctl ev cmd waitFor tester before) = Pending
      \<and> listening (sendCommand ctl ev cmd waitFor tester before)
      \<and> timerArmed (sendCommand ctl ev cmd waitFor tester before)
      \<and> sent (sendCommand ctl ev cmd waitFor tester before)
          = Some (compileMessage (util_password ctl) cmd)
      \<and> settled (sendCommand ctl ev cmd waitFor tester (before @ TimerFires # later))
          = Rejected ResultTimedOut
      \<and> \<not> listening (sendCommand ctl ev cmd waitFor tester (before @ TimerFires # later))
      \<and> (matches (resultCode cmd waitFor) tester m \<longrightarrow>
           (\<exists>result. parseResult m = Some result
              \<and> settled (sendCommand ctl ev cmd waitFor tester (before @ Inbound m # later))
                  = Resolved result)
           \<and> \<not> listening (sendCommand ctl ev cmd waitFor tester (before @ Inbound m # later)))
      \<and> settled (sendCommand ctl ev cmd waitFor tester (before @ SendDone (Some err) # later))
          = Rejected (SendFailed err))
   \<and> (resultTimeout ctl = 0 \<longrightarrow>
        \<not> timerArmed (sendCommand ctl ev cmd waitFor tester cbs)
        \<and> settled (sendCommand ctl ev cmd waitFor tester cbs) \<noteq> Rejected ResultTimedOut)"
proof (intro conjI impI)
  let ?code = "resultCode cmd waitFor"
  let ?w0 = "sendCommand_start ctl' cmd"
  let ?run = "\<lambda>cbs. sendCommand ctl ev cmd waitFor tester cbs"
  note run = sendCommand_connected[OF assms]
  note keeps = connect_keeps[OF assms]
  assume a: "0 < resultTimeout ctl \<and> (\<forall>cb\<in>set before. uneventful ?code tester cb)"
  then have quiet: "foldl (deliver ?code tester) ?w0 before = ?w0"
    by (simp add: foldl_uneventful)
  then have before: "?run before = ?w0" by (simp add: run)
  show "settled (?run before) = Pending" "listening (?run before)" "timerArmed (?run before)"
    "sent (?run before) = Some (compileMessage (util_password ctl) cmd)"
    unfolding before using a keeps by (simp_all add: sendCommand_start_def)
  have step: "?run (before @ cb # later) = foldl (deliver ?code tester) (deliver ?code tester ?w0 cb) later"
    for cb by (simp add: run quiet)
  let ?t = "deliver ?code tester ?w0 TimerFires"
  have t: "settled ?t = Rejected ResultTimedOut" "\<not> listening ?t"
    using a keeps by (simp_all add: deliver_def onTimeout_def reject_def sendCommand_start_def)
  show "settled (?run (before @ TimerFires # later)) = Rejected ResultTimedOut"
    unfolding step using foldl_settled[of ?t ?code tester later] t(1) by simp
  show "\<not> listening (?run (before @ TimerFires # later))"
    unfolding step using foldl_not_listening[OF t(2)] by simp
  let ?s = "deliver ?code tester ?w0 (SendDone (Some err))"
  have s: "settled ?s = Rejected (SendFailed err)"
    by (simp add: deliver_def onSendDone_def reject_def sendCommand_start_def)
  show "settled (?run (before @ SendDone (Some err) # later)) = Rejected (SendFailed err)"
    unfolding step using foldl_settled[of ?s ?code tester later] s by simp
  {
    assume m: "matches ?code tester m"
    then obtain result where r: "parseResult m = Some result"
      by (auto simp: matches_def split: option.splits)
    let ?r = "deliver ?code tester ?w0 (Inbound m)"
    have rr: "settled ?r = Resolved result" "\<not> listening ?r"
      using m r
      by (auto simp: deliver_def onMessage_def matches_def resolve_def sendCommand_start_def
          split: option.splits)
    have "settled (?run (before @ Inbound m # later)) = Resolved result"
      unfolding step using foldl_settled[of ?r ?code tester later] rr(1) by simp
    with r show "\<exists>result. parseResult m = Some result
        \<and> settled (?run (before @ Inbound m # later)) = Resolved result"
      by blast
    show "\<not> listening (?run (before @ Inbound m # later))"
      unfolding step using foldl_not_listening[OF rr(2)] by simp
  }
next
  assume z: "resultTimeout ctl = 0"
  then have "\<not> timerArmed (sendCommand_start ctl' cmd)"
    "settled (sendCommand_start ctl' cmd) \<noteq> Rejected ResultTimedOut"
    using connect_keeps[OF assms] by (simp_all add: sendCommand_start_def)
  from foldl_no_timer[OF this, of "resultCode cmd waitFor" tester cbs]
  show "\<not> timerArmed (sendCommand ctl ev cmd waitFor tester cbs)"
    and "settled (sendCommand ctl ev cmd waitFor tester cbs) \<noteq> Rejected ResultTimedOut"
    by (simp_all add: sendCommand_connected[OF assms])
qed

theorem sendCommand_timeout_witness:
  "connect (newController (Some ''123456'')) Listening
     = Connected ((newController (Some ''123456''))
         \<lparr> socket := True, isConnected := True, connectingSocket := False \<rparr>)
   \<and> 0 < resultTimeout (newController (Some ''123456''))
   \<and> uneventful (resultCode ''6e'' WaitTrue) None (SendDone None)
   \<and> uneventful (resultCode ''6e'' WaitTrue) None (Inbound ''zz'')
   \<and> uneventful (resultCode ''6e'' WaitTrue) None (Inbound ''55aa0001070108'')
   \<and> matches (resultCode ''6e'' WaitTrue) None ''55aa0001126e000100000000000000000081''
   \<and> settled (sendCommand (newController (Some ''123456'')) Listening ''6e'' WaitTrue None
        ([SendDone None, Inbound ''zz'', Inbound ''55aa0001070108'']
          @ TimerFires # [Inbound ''55aa0001126e000100000000000000000081'']))
      = Rejected ResultTimedOut
   \<and> \<not> listening (sendCommand (newController (Some ''123456'')) Listening ''6e'' WaitTrue None
        ([SendDone None, Inbound ''zz'', Inbound ''55aa0001070108'']
          @ TimerFires # [Inbound ''55aa0001126e000100000000000000000081'']))
   \<and> settled (sendCommand (newController (Some ''123456'')) Listening ''6e'' WaitTrue None
        ([SendDone None, Inbound ''zz'', Inbound ''55aa0001070108'']
          @ Inbound ''55aa0001126e000100000000000000000081'' # [TimerFires]))
      = Resolved \<lparr> raw = ''55aa0001126e000100000000000000000081'', command = ''6e'',
                     data = ''000100000000000000000081'' \<rparr>
   \<and> connect (set_resultTimeout (newController (Some ''123456'')) 0) Listening
     = Connected ((set_resultTimeout (newController (Some ''123456'')) 0)
         \<lparr> socket := True, isConnected := True, connectingSocket := False \<rparr>)
   \<and> resultTimeout (set_resultTimeout (newController (Some ''123456'')) 0) = 0
   \<and> settled (sendCommand (set_resultTimeout (newController (Some ''123456'')) 0) Listening ''6e''
        WaitTrue None [SendDone None, Inbound ''zz'', TimerFires])
      \<noteq> Rejected ResultTimedOut"
proof -
  let ?ctl = "newController (Some ''123456'')"
  let ?zero = "set_resultTimeout ?ctl 0"
  let ?before = "[SendDone None, Inbound ''zz'', Inbound ''55aa0001070108'']"
  let ?m = "''55aa0001126e000100000000000000000081''"
  have c1: "connect ?ctl Listening
      = Connected (?ctl \<lparr> socket := True, isConnected := True, connectingSocket := False \<rparr>)"
    by (simp add: connect_def newController_def)
  have c2: "connect ?zero Listening
      = Connected (?zero \<lparr> socket := True, isConnected := True, connectingSocket := False \<rparr>)"
    by (simp add: connect_def newController_def set_resultTimeout_def)
  have h1: "0 < resultTimeout ?ctl" by (simp add: newController_def)
  have u: "uneventful (resultCode ''6e'' WaitTrue) None (SendDone None)"
    "uneventful (resultCode ''6e'' WaitTrue) None (Inbound ''zz'')"
    "uneventful (resultCode ''6e'' WaitTrue) None (Inbound ''55aa0001070108'')"
    by code_simp+
  then have h2: "\<forall>cb\<in>set ?before. uneventful (resultCode ''6e'' WaitTrue) None cb"
    by simp
  have hm: "matches (resultCode ''6e'' WaitTrue) None ?m" by code_simp
  have pm: "parseResult ?m = Some \<lparr> raw = ?m, command = ''6e'', data = ''000100000000000000000081'' \<rparr>"
    by code_simp
  have h3: "resultTimeout ?zero = 0" by (simp add: set_resultTimeout_def)
  note t1 = sendCommand_timeout[OF c1, where before = ?before and cmd = "''6e''"
      and waitFor = WaitTrue and tester = None and m = ?m, THEN conjunct1]
  note t2 = sendCommand_timeout[OF c2, where cmd = "''6e''" and waitFor = WaitTrue
      and tester = None and cbs = "[SendDone None, Inbound ''zz'', TimerFires]", THEN conjunct2]
  note p = mp[OF t1 conjI[OF h1 h2]]
  have r1: "settled (sendCommand ?ctl Listening ''6e'' WaitTrue None (?before @ TimerFires # [Inbound ?m]))
      = Rejected ResultTimedOut"
    using p by blast
  have r2: "\<not> listening (sendCommand ?ctl Listening ''6e'' WaitTrue None (?before @ TimerFires # [Inbound ?m]))"
    using p by blast
  have "\<exists>result. parseResult ?m = Some result
      \<and> settled (sendCommand ?ctl Listening ''6e'' WaitTrue None (?before @ Inbound ?m # [TimerFires]))
          = Resolved result"
    using p hm by blast
  then have r3: "settled (sendCommand ?ctl Listening ''6e'' WaitTrue None (?before @ Inbound ?m # [TimerFires]))
      = Resolved \<lparr> raw = ?m, command = ''6e'', data = ''000100000000000000000081'' \<rparr>"
    unfolding pm by simp
  have r4: "settled (sendCommand ?zero Listening ''6e'' WaitTrue None
        [SendDone None, Inbound ''zz'', TimerFires]) \<noteq> Rejected ResultTimedOut"
    using mp[OF t2 h3] by blast
  show ?thesis
    using c1 c2 h1 u hm r1 r2 r3 h3 r4 by (intro conjI)
qed

theorem sendCommand_timeout_counterexample:
  "0 < resultTimeout (newController (Some ''123456''))
   \<and> settled (sendCommand (newController (Some ''123456'')) Listening ''6e'' WaitTrue None
        [SendDone (Some ''EHOSTUNREACH''), TimerFires])
      = Rejected (SendFailed ''EHOSTUNREACH'')
   \<and> settled (sendCommand (newController (Some ''123456'')) (SocketError ''EADDRINUSE'') ''6e''
        WaitTrue None [TimerFires])
      = Rejected (BindFailed ''EADDRINUSE'')
   \<and> \<not> timerArmed (sendCommand (newController (Some ''123456'')) (SocketError ''EADDRINUSE'') ''6e''
        WaitTrue None [])"
  by code_simp

section \<open>sendSetPassword\<close>

text \<open>
  Claim C7 says that the stored password stays unchanged when the device refuses the
  change. The code assigns \<^verbatim>\<open>this.#util.password\<close> before it looks at the response: after
  a response whose result byte is \<^verbatim>\<open>00\<close>, \<^verbatim>\<open>sendSetPassword\<close> returns \<^verbatim>\<open>false\<close> and the
  stored password is the new one all the same.
\<close>

theorem sendSetPassword_refused:
  "parseResult ''55aa00010802000a''
     = Some \<lparr> raw = ''55aa00010802000a'', command = ''02'', data = ''000a'' \<rparr>
   \<and> snd (sendSetPassword (newController (Some ''123456'')) ''654321''
        \<lparr> raw = ''55aa00010802000a'', command = ''02'', data = ''000a'' \<rparr>) = False
   \<and> util_password (fst (sendSetPassword (newController (Some ''123456'')) ''654321''
        \<lparr> raw = ''55aa00010802000a'', command = ''02'', data = ''000a'' \<rparr>)) = Some ''654321''"
  by code_simp

section \<open>sendSetMaxCurrent\<close>

lemma hexDigits_4_255: "hexDigits 4 255 = ''00ff''"
  by code_simp

lemma hexDigits_4_0: "hexDigits 4 0 = ''0000''"
  by code_simp

lemma hex4_render:
  "0 \<le> n \<Longrightarrow> n < 65536 \<Longrightarrow> padStart 4 (CHR ''0'') (numberToString 16 (Finite n)) = hexDigits 4 n"
proof -
  assume n: "0 \<le> n" "n < 65536"
  then have "padStart 4 (CHR ''0'') (digitsOf 16 n) = hexDigits 4 n"
    by (intro padStart_digitsOf) simp_all
  moreover have "\<not> n < 0" using n(1) by simp
  ultimately show ?thesis by (simp only: numberToString_def js_number.case if_False)
qed

text \<open>
  Claim C10, as amended. For every numeric argument above -1, whose integer part is not
  negative, the request payload of \<^verbatim>\<open>sendSetMaxCurrent\<close> is \<open>min(trunc(maxCurrent), 255)\<close>
  as four hex digits; every argument above 255, infinity included, is clamped and sent as
  \<^verbatim>\<open>00ff\<close>, although the field is two bytes wide.
\<close>

theorem sendSetMaxCurrent_clamps:
  "(0 \<le> q \<longrightarrow> sendSetMaxCurrent_command (Finite q) = ''6d'' @ hexDigits 4 (min \<lfloor>q\<rfloor> 255))
   \<and> (- 1 < q \<and> q < 0 \<longrightarrow> sendSetMaxCurrent_command (Finite q) = ''6d0000'')
   \<and> (255 < q \<longrightarrow> sendSetMaxCurrent_command (Finite q) = ''6d00ff'')
   \<and> sendSetMaxCurrent_command PosInfinity = ''6d00ff''"
proof -
  have gen: "sendSetMaxCurrent_command y
     = ''6d'' @ padStart 4 (CHR ''0'') (numberToString 16 (Math_min (Math_trunc y) (Finite 255)))" for y
    by (simp add: sendSetMaxCurrent_command_def Command_SetMaxCurrent_def)
  have nonneg: "sendSetMaxCurrent_command (Finite q) = ''6d'' @ hexDigits 4 (min \<lfloor>q\<rfloor> 255)"
    if "0 \<le> q" for q
  proof -
    let ?n = "min \<lfloor>q\<rfloor> 255"
    have n: "0 \<le> ?n" "?n < 65536" using that by simp_all
    have "Math_min (Math_trunc (Finite q)) (Finite 255) = Finite ?n"
      using that by (simp add: Math_min_def Math_trunc_def)
    then show ?thesis
      by (simp only: gen hex4_render[OF n])
  qed
  have small: "sendSetMaxCurrent_command (Finite q) = ''6d0000''" if "- 1 < q \<and> q < 0" for q
  proof -
    have "\<lfloor>- q\<rfloor> = 0" using that by (simp add: floor_eq_iff)
    then have "Math_min (Math_trunc (Finite q)) (Finite 255) = Finite 0"
      using that by (simp add: Math_min_def Math_trunc_def)
    then show ?thesis
      using hex4_render[of 0] by (simp add: gen hexDigits_4_0)
  qed
  have big: "sendSetMaxCurrent_command (Finite q) = ''6d00ff''" if "255 < q" for q
  proof -
    have "255 \<le> \<lfloor>q\<rfloor>" using that by (simp add: le_floor_iff)
    then have "min \<lfloor>q\<rfloor> 255 = 255" by simp
    with nonneg[of q] that show ?thesis by (simp add: hexDigits_4_255)
  qed
  have inf: "sendSetMaxCurrent_command PosInfinity = ''6d00ff''"
    by code_simp
  show ?thesis using nonneg[of q] small[of q] big[of q] inf by blast
qed

theorem sendSetMaxCurrent_clamps_witness:
  "(0::rat) \<le> 16 \<and> sendSetMaxCurrent_command (Finite 16) = ''6d0010''
   \<and> (- 1 :: rat) < - 1 / 2 \<and> (- 1 / 2 :: rat) < 0
   \<and> sendSetMaxCurrent_command (Finite (- 1 / 2)) = ''6d0000''
   \<and> (255::rat) < 3007 / 10 \<and> sendSetMaxCurrent_command (Finite (3007 / 10)) = ''6d00ff''"
proof -
  have a: "(0::rat) \<le> 16" by simp
  have b: "(255::rat) < 3007 / 10" by simp
  have c: "(- 1 :: rat) < - 1 / 2 \<and> (- 1 / 2 :: rat) < 0" by simp
  have v: "hexDigits 4 (min \<lfloor>16::rat\<rfloor> 255) = ''0010''" by code_simp
  have "sendSetMaxCurrent_command (Finite 16) = ''6d'' @ hexDigits 4 (min \<lfloor>16::rat\<rfloor> 255)"
    using sendSetMaxCurrent_clamps[of 16] a by blast
  moreover have "sendSetMaxCurrent_command (Finite (3007 / 10)) = ''6d00ff''"
    using sendSetMaxCurrent_clamps[of "3007 / 10"] b by blast
  moreover have "sendSetMaxCurrent_command (Finite (- 1 / 2)) = ''6d0000''"
    using sendSetMaxCurrent_clamps[of "- 1 / 2"] c by blast
  ultimately show ?thesis using a b c v by simp
qed

theorem sendSetMaxCurrent_negative_counterexample:
  "sendSetMaxCurrent_command (Finite (- 5)) = ''6d00-5''
   \<and> \<not> isHexString ''00-5''
   \<and> sendSetMaxCurrent_command NaN = ''6d0NaN''
   \<and> sendSetMaxCurrent_command NegInfinity = ''6d-Infinity''"
  by code_simp

section \<open>sendGetRealTimeData\<close>

text \<open>
  Claim C4, as amended. In \<^verbatim>\<open>sendGetRealTimeData\<close>, for a one-phase or three-phase model,
  whenever the first length gate passes (payload length at least 36 in one-phase mode, 46
  in three-phase mode), \<open>maxCurrent\<close>, \<open>maxPower\<close> and \<open>isReservation\<close> are decoded from the
  fixed character offsets 46, 48 and 50 of the payload, the same in both modes, and not
  from the cursor. The cursor, which stands at 34 (one-phase) or 44 (three-phase) after
  the two charge times, is advanced by 6 characters, that is by three byte pairs:
  \<open>isMaximum\<close>, when its gate passes, is read from the two characters at cursor + 6, and
  \<open>isExtremeMode\<close> from the two characters at cursor + 8.
\<close>

theorem realTimeData_gated_fields:
  assumes "model ctl = Some m"
    and "mode m = ChargerMode_OnePhase \<or> mode m = ChargerMode_ThreePhase"
    and "cursorAfterTimes m + 2 \<le> length (data msg)"
  shows "\<exists>ctl' d. sendGetRealTimeData ctl msg = Inr (ctl', d)
    \<and> maxCurrent d = Some (parseInt (take 2 (drop 46 (data msg))) 16)
    \<and> maxPower d = Some (parseInt (take 2 (drop 48 (data msg))) 16)
    \<and> isReservation d = Some (parseInt (take 2 (drop 50 (data msg))) 16 = Finite 1)
    \<and> isMaximum d =
        (if cursorAfterTimes m + 8 \<le> length (data msg)
         then Some (parseInt (take 2 (drop (cursorAfterTimes m + 6) (data msg))) 16 = Finite 1)
         else None)
    \<and> isExtremeMode d =
        (if cursorAfterTimes m + 10 \<le> length (data msg)
         then Some (parseInt (take 2 (drop (cursorAfterTimes m + 8) (data msg))) 16 = Finite 1)
         else None)"
proof (cases "mode m = ChargerMode_OnePhase")
  case True
  then show ?thesis
    using assms(1,3)
    by (simp add: sendGetRealTimeData_def Let_def cursorAfterTimes_def isOne_def
        hexField_def substring_take_drop)
next
  case False
  then have three: "mode m = ChargerMode_ThreePhase" using assms(2) by simp
  show ?thesis
    using False three assms(1,3)
    by (simp add: sendGetRealTimeData_def Let_def cursorAfterTimes_def isOne_def
        hexField_def substring_take_drop)
qed

theorem realTimeData_gated_fields_witness:
  "model (controllerWithMode ChargerMode_ThreePhase)
     = Some \<lparr> mode = ChargerMode_ThreePhase, version = [], firmwareVersion = [], hardwareVersion = [] \<rparr>
   \<and> (mode \<lparr> mode = ChargerMode_ThreePhase, version = [], firmwareVersion = [], hardwareVersion = [] \<rparr>
          = ChargerMode_OnePhase
        \<or> mode \<lparr> mode = ChargerMode_ThreePhase, version = [], firmwareVersion = [], hardwareVersion = [] \<rparr>
          = ChargerMode_ThreePhase)
   \<and> cursorAfterTimes
         \<lparr> mode = ChargerMode_ThreePhase, version = [], firmwareVersion = [], hardwareVersion = [] \<rparr> + 2
       \<le> length (data \<lparr> raw = ''55aa000122700a0b0c00e600e700e8007b01c87d060116000006000000102001007d'',
                         command = ''70'',
                         data = ''0a0b0c00e600e700e8007b01c87d060116000006000000102001007d'' \<rparr>)
   \<and> maxCurrent (snd (projr (sendGetRealTimeData (controllerWithMode ChargerMode_ThreePhase)
        \<lparr> raw = ''55aa000122700a0b0c00e600e700e8007b01c87d060116000006000000102001007d'',
          command = ''70'',
          data = ''0a0b0c00e600e700e8007b01c87d060116000006000000102001007d'' \<rparr>))) = Some (Finite 16)
   \<and> isMaximum (snd (projr (sendGetRealTimeData (controllerWithMode ChargerMode_ThreePhase)
        \<lparr> raw = ''55aa000122700a0b0c00e600e700e8007b01c87d060116000006000000102001007d'',
          command = ''70'',
          data = ''0a0b0c00e600e700e8007b01c87d060116000006000000102001007d'' \<rparr>))) = Some True"
proof -
  let ?m = "\<lparr> mode = ChargerMode_ThreePhase, version = [], firmwareVersion = [], hardwareVersion = [] \<rparr>"
  let ?ctl = "controllerWithMode ChargerMode_ThreePhase"
  let ?p = "''0a0b0c00e600e700e8007b01c87d060116000006000000102001007d''"
  let ?msg = "\<lparr> raw = ''55aa000122700a0b0c00e600e700e8007b01c87d060116000006000000102001007d'',
                command = ''70'', data = ?p \<rparr>"
  have h1: "model ?ctl = Some ?m" by (simp add: controllerWithMode_def)
  have h2: "mode ?m = ChargerMode_OnePhase \<or> mode ?m = ChargerMode_ThreePhase" by simp
  have h3: "cursorAfterTimes ?m + 2 \<le> length (data ?msg)"
    by (simp add: cursorAfterTimes_def ChargerMode_OnePhase_def ChargerMode_ThreePhase_def)
  have c: "cursorAfterTimes ?m = 44"
    by (simp add: cursorAfterTimes_def ChargerMode_OnePhase_def ChargerMode_ThreePhase_def)
  have v: "parseInt (take 2 (drop 46 ?p)) 16 = Finite 16"
    "parseInt (take 2 (drop 50 ?p)) 16 = Finite 1"
    by code_simp+
  from realTimeData_gated_fields[OF h1 h2 h3]
  obtain ctl' d where r: "sendGetRealTimeData ?ctl ?msg = Inr (ctl', d)"
    and mc: "maxCurrent d = Some (parseInt (take 2 (drop 46 (data ?msg))) 16)"
    and mx: "isMaximum d =
        (if cursorAfterTimes ?m + 8 \<le> length (data ?msg)
         then Some (parseInt (take 2 (drop (cursorAfterTimes ?m + 6) (data ?msg))) 16 = Finite 1)
         else None)"
    by blast
  have "maxCurrent d = Some (Finite 16)" using mc v(1) by simp
  moreover have "isMaximum d = Some True" using mx v(2) unfolding c by simp
  moreover have "snd (projr (sendGetRealTimeData ?ctl ?msg)) = d" by (simp add: r)
  ultimately show ?thesis using h1 h2 h3 by simp
qed

theorem realTimeData_cursor_counterexample:
  "isMaximum (snd (projr (sendGetRealTimeData (controllerWithMode ChargerMode_ThreePhase)
      \<lparr> raw = ''55aa000123700000000000000000000000000000000000000000000000000001000094'',
        command = ''70'',
        data = ''0000000000000000000000000000000000000000000000000001000094'' \<rparr>))) = Some True
   \<and> isMaximum (snd (projr (sendGetRealTimeData (controllerWithMode ChargerMode_ThreePhase)
      \<lparr> raw = ''55aa000123700000000000000000000000000000000000000000000000000001000094'',
        command = ''70'',
        data = ''0000000000000000000000000000000000000000000000000001000094'' \<rparr>)))
      \<noteq> Some (parseInt (take 2 (drop (44 + 2 * 6)
            ''0000000000000000000000000000000000000000000000000001000094'')) 16 = Finite 1)"
  by code_simp

section \<open>sendGetPowerConsumptionRecordsOfMonth\<close>


















end
